theory Spec2Isabelle
  imports Main "HOL-Library.Sublist" "HOL-Library.Word"
begin

section \<open>Strings\<close>

text \<open>
  A Go string is a sequence of bytes; it is modelled as a \<open>string\<close> (a list of 8-bit
  characters).  \<open>len\<close> is \<open>length\<close>, \<open>s[:n]\<close> is \<open>take n s\<close> and \<open>+\<close> is \<open>@\<close>.
\<close>

text \<open>\<open>strings.HasPrefix\<close> and \<open>strings.Contains\<close>: byte-wise, the empty string is
  contained in every string.\<close>

fun HasPrefix :: "string \<Rightarrow> string \<Rightarrow> bool" where
  "HasPrefix s [] = True"
| "HasPrefix [] (p # ps) = False"
| "HasPrefix (c # s) (p # ps) = (c = p \<and> HasPrefix s ps)"

fun Contains :: "string \<Rightarrow> string \<Rightarrow> bool" where
  "Contains [] substr = (substr = [])"
| "Contains (c # s) substr = (HasPrefix (c # s) substr \<or> Contains s substr)"

text \<open>\<open>strings.TrimPrefix\<close>.\<close>

definition TrimPrefix :: "string \<Rightarrow> string \<Rightarrow> string" where
  "TrimPrefix s p = (if HasPrefix s p then drop (length p) s else s)"

text \<open>
  \<open>strings.ToLower\<close> has a fast path for strings made of ASCII bytes only, which maps
  \<open>A\<close>..\<open>Z\<close> to \<open>a\<close>..\<open>z\<close> byte by byte.  Every other string goes through the Unicode
  case tables of the Go library, which are not part of this repository: they are the
  parameter \<open>lc\<close>.
\<close>

definition isASCII :: "char \<Rightarrow> bool" where
  "isASCII c = (of_char c < (128::nat))"

definition lowerASCII :: "char \<Rightarrow> char" where
  "lowerASCII c =
     (case map_of (zip ''ABCDEFGHIJKLMNOPQRSTUVWXYZ'' ''abcdefghijklmnopqrstuvwxyz'') c of
        None \<Rightarrow> c
      | Some l \<Rightarrow> l)"

definition ToLower :: "(string \<Rightarrow> string) \<Rightarrow> string \<Rightarrow> string" where
  "ToLower lc s = (if list_all isASCII s then map lowerASCII s else lc s)"

section \<open>Volumes of the runtime gateway\<close>

text \<open>
  \<open>IsAnonymousVolume\<close>: the length test, then the loop over the characters of the name
  that returns \<open>false\<close> at the first character outside \<open>0\<close>..\<open>9\<close> and \<open>a\<close>..\<open>f\<close>.  The
  Go loop ranges over runes; a byte of 128 or more starts (or is) a rune that is
  outside both ranges, as the byte itself is, so the loop over bytes gives the same
  answer.
\<close>

definition isLowerHexDigit :: "char \<Rightarrow> bool" where
  "isLowerHexDigit c =
     (((48::nat) \<le> of_char c \<and> of_char c \<le> (57::nat)) \<or>
      ((97::nat) \<le> of_char c \<and> of_char c \<le> (102::nat)))"

fun hexLoop :: "string \<Rightarrow> bool" where
  "hexLoop [] = True"
| "hexLoop (c # cs) = (if \<not> isLowerHexDigit c then False else hexLoop cs)"

definition IsAnonymousVolume :: "string \<Rightarrow> bool" where
  "IsAnonymousVolume name = (if length name \<noteq> 64 then False else hexLoop name)"

section \<open>The resource model\<close>

text \<open>\<open>ResourceType\<close> is a Go string type with four named constants.\<close>

type_synonym ResourceType = string

definition TypeContainer :: ResourceType where "TypeContainer = ''container''"
definition TypeImage :: ResourceType where "TypeImage = ''image''"
definition TypeVolume :: ResourceType where "TypeVolume = ''volume''"
definition TypeNetwork :: ResourceType where "TypeNetwork = ''network''"

datatype Category = CategoryProtected | CategoryInUse | CategorySuggested | CategoryUnused

text \<open>
  A Go \<open>map[string]string\<close> is \<open>nil\<close> (\<open>None\<close>) or a finite map.  Reading a key that is
  absent, or reading from the \<open>nil\<close> map, gives the empty string.
\<close>

type_synonym GoMap = "(string \<rightharpoonup> string) option"

definition index :: "GoMap \<Rightarrow> string \<Rightarrow> string" where
  "index m k = (case m of None \<Rightarrow> '''' | Some f \<Rightarrow> (case f k of None \<Rightarrow> '''' | Some v \<Rightarrow> v))"

definition LabelProtect :: string where "LabelProtect = ''sweep.protect''"

text \<open>
  An instant (\<open>time.Time\<close>) is an integer, the nanoseconds since the zero instant;
  the zero \<open>time.Time\<close> is \<open>0\<close>.  A \<open>time.Duration\<close> is a signed 64-bit number of
  nanoseconds.  \<open>time.Since\<close> subtracts the instant from the reading \<open>now\<close> of the
  clock and saturates at the least and the greatest duration.
\<close>

type_synonym Time = int
type_synonym Duration = "64 word"

definition IsZero :: "Time \<Rightarrow> bool" where
  "IsZero t = (t = 0)"

definition minDuration :: int where "minDuration = - (2 ^ 63)"
definition maxDuration :: int where "maxDuration = 2 ^ 63 - 1"

definition Since :: "Time \<Rightarrow> Time \<Rightarrow> int" where
  "Since now t =
     (if now - t > maxDuration then maxDuration
      else if now - t < minDuration then minDuration
      else now - t)"

record Config =
  Yes :: bool
  DryRun :: bool
  OlderThan :: Duration
  MinSize :: int
  Dangling :: bool
  NoDangling :: bool
  Exited :: bool
  Anonymous :: bool

record Container =
  Container_ID :: string
  Container_Names :: string
  Container_Image :: string
  Container_State :: string
  Container_Status :: string
  Container_CreatedAt :: Time
  Container_Size :: string
  Container_Labels :: GoMap

record Image =
  Image_ID :: string
  Image_Repository :: string
  Image_Tag :: string
  Image_CreatedAt :: string
  Image_Size :: string
  Image_SizeBytes :: int
  Image_HasSize :: bool
  Image_CreatedAtTime :: Time
  Image_HasCreatedAt :: bool
  Image_ListLabels :: GoMap
  Image_HasListLabels :: bool

record Volume =
  Volume_Name :: string
  Volume_Driver :: string
  Volume_Mountpoint :: string

record Network =
  Network_ID :: string
  Network_Name :: string
  Network_Driver :: string
  Network_Scope :: string

definition SystemNetworks :: "string \<Rightarrow> bool" where
  "SystemNetworks name = (name \<in> {''bridge'', ''host'', ''none'', ''podman''})"

subsection \<open>The analyzed records and their methods\<close>

record ContainerResource =
  c_container :: Container
  c_category :: Category
  c_labels :: GoMap
  c_createdAt :: Time
  c_composeProject :: string
  c_protectReason :: string

record ImageResource =
  i_image :: Image
  i_category :: Category
  i_inUse :: bool
  i_size :: int
  i_labels :: GoMap
  i_createdAt :: Time
  i_protectReason :: string

record VolumeResource =
  v_volume :: Volume
  v_category :: Category
  v_inUse :: bool
  v_labels :: GoMap
  v_createdAt :: Time
  v_composeProject :: string
  v_protectReason :: string

record NetworkResource =
  n_network :: Network
  n_category :: Category
  n_inUse :: bool
  n_labels :: GoMap
  n_createdAt :: Time
  n_composeProject :: string
  n_protectReason :: string

definition ContainerResource_IsProtected :: "ContainerResource \<Rightarrow> bool" where
  "ContainerResource_IsProtected c = (c_category c = CategoryProtected)"

definition ContainerResource_IsSuggested :: "ContainerResource \<Rightarrow> bool" where
  "ContainerResource_IsSuggested c = (c_category c = CategorySuggested)"

definition ImageResource_IsProtected :: "ImageResource \<Rightarrow> bool" where
  "ImageResource_IsProtected i = (i_category i = CategoryProtected)"

definition ImageResource_IsSuggested :: "ImageResource \<Rightarrow> bool" where
  "ImageResource_IsSuggested i = (i_category i = CategorySuggested)"

definition VolumeResource_IsProtected :: "VolumeResource \<Rightarrow> bool" where
  "VolumeResource_IsProtected v = (v_category v = CategoryProtected)"

definition VolumeResource_IsSuggested :: "VolumeResource \<Rightarrow> bool" where
  "VolumeResource_IsSuggested v = (v_category v = CategorySuggested)"

definition NetworkResource_IsProtected :: "NetworkResource \<Rightarrow> bool" where
  "NetworkResource_IsProtected n = (n_category n = CategoryProtected)"

definition NetworkResource_IsSuggested :: "NetworkResource \<Rightarrow> bool" where
  "NetworkResource_IsSuggested n = (n_category n = CategorySuggested)"

subsection \<open>Categorization\<close>

definition categorizeContainer :: "Container \<Rightarrow> GoMap \<Rightarrow> Config \<Rightarrow> Category \<times> string" where
  "categorizeContainer c labels cfg =
     (if index labels LabelProtect = ''true'' then (CategoryProtected, ''protected by label'')
      else if Container_State c = ''running'' then (CategoryProtected, ''running'')
      else if Container_State c = ''paused'' then (CategoryProtected, ''paused'')
      else if Container_State c = ''restarting'' then (CategoryProtected, ''restarting'')
      else if Container_State c = ''exited'' \<or> Container_State c = ''dead''
              \<or> Container_State c = ''created'' then (CategorySuggested, '''')
      else (CategoryUnused, ''''))"

definition categorizeImage :: "Image \<Rightarrow> bool \<Rightarrow> GoMap \<Rightarrow> Config \<Rightarrow> Category \<times> string" where
  "categorizeImage img inUse labels cfg =
     (if labels \<noteq> None \<and> index labels LabelProtect = ''true''
      then (CategoryProtected, ''protected by label'')
      else if inUse then (CategoryProtected, ''in use by container'')
      else if Image_Repository img = ''<none>'' \<and> Image_Tag img = ''<none>''
      then (CategorySuggested, '''')
      else (CategoryUnused, ''''))"

definition categorizeVolume :: "Volume \<Rightarrow> bool \<Rightarrow> GoMap \<Rightarrow> Config \<Rightarrow> Category \<times> string" where
  "categorizeVolume vol inUse labels cfg =
     (if labels \<noteq> None \<and> index labels LabelProtect = ''true''
      then (CategoryProtected, ''protected by label'')
      else if inUse then (CategoryProtected, ''mounted by container'')
      else if IsAnonymousVolume (Volume_Name vol) then (CategorySuggested, '''')
      else (CategoryUnused, ''''))"

definition categorizeNetwork :: "Network \<Rightarrow> bool \<Rightarrow> GoMap \<Rightarrow> Config \<Rightarrow> Category \<times> string" where
  "categorizeNetwork net inUse labels cfg =
     (if labels \<noteq> None \<and> index labels LabelProtect = ''true''
      then (CategoryProtected, ''protected by label'')
      else if SystemNetworks (Network_Name net) then (CategoryProtected, ''system network'')
      else if inUse then (CategoryProtected, ''in use by container'')
      else (CategorySuggested, ''''))"

subsection \<open>The \<open>Resource\<close> interface\<close>

text \<open>
  A value of the interface \<open>Resource\<close> is modelled by what its methods return.  The
  four functions below build it from the four concrete records, method by method.
\<close>

record Resource =
  ID :: string
  Type :: ResourceType
  DisplayName :: string
  Category :: Category
  Details :: string
  Size :: int
  IsProtected :: bool
  IsSuggested :: bool

definition truncateName :: "nat \<Rightarrow> string \<Rightarrow> string" where
  "truncateName n name = (if length name > n then take (n - 3) name @ ''...'' else name)"

definition trimImageID :: "string \<Rightarrow> string" where
  "trimImageID ident =
     (let id1 = (if length ident > 7 \<and> take 7 ident = ''sha256:'' then drop 7 ident else ident)
      in if length id1 > 12 then take 12 id1 else id1)"

definition ContainerResource_Resource :: "ContainerResource \<Rightarrow> Resource" where
  "ContainerResource_Resource c =
     \<lparr> ID = Container_ID (c_container c),
       Type = TypeContainer,
       DisplayName = truncateName 20 (TrimPrefix (Container_Names (c_container c)) ''/''),
       Category = c_category c,
       Details = Container_State (c_container c) @ ''  ''
                 @ truncateName 25 (Container_Image (c_container c)),
       Size = 0,
       IsProtected = ContainerResource_IsProtected c,
       IsSuggested = ContainerResource_IsSuggested c \<rparr>"

definition ImageResource_Resource :: "ImageResource \<Rightarrow> Resource" where
  "ImageResource_Resource i =
     \<lparr> ID = Image_ID (i_image i),
       Type = TypeImage,
       DisplayName =
         (if Image_Repository (i_image i) = ''<none>''
          then ''<none>:'' @ trimImageID (Image_ID (i_image i))
          else truncateName 30
                 (if Image_Tag (i_image i) \<noteq> ''<none>''
                  then Image_Repository (i_image i) @ '':'' @ Image_Tag (i_image i)
                  else Image_Repository (i_image i))),
       Category = i_category i,
       Details =
         (if i_inUse i then ''in use''
          else if Image_Repository (i_image i) = ''<none>'' then ''dangling''
          else ''unused''),
       Size = i_size i,
       IsProtected = ImageResource_IsProtected i,
       IsSuggested = ImageResource_IsSuggested i \<rparr>"

definition VolumeResource_Resource :: "VolumeResource \<Rightarrow> Resource" where
  "VolumeResource_Resource v =
     \<lparr> ID = Volume_Name (v_volume v),
       Type = TypeVolume,
       DisplayName = truncateName 30 (Volume_Name (v_volume v)),
       Category = v_category v,
       Details =
         (if v_inUse v then ''in use''
          else if IsAnonymousVolume (Volume_Name (v_volume v)) then ''anonymous''
          else ''unused''),
       Size = 0,
       IsProtected = VolumeResource_IsProtected v,
       IsSuggested = VolumeResource_IsSuggested v \<rparr>"

definition NetworkResource_Resource :: "NetworkResource \<Rightarrow> Resource" where
  "NetworkResource_Resource n =
     \<lparr> ID = Network_ID (n_network n),
       Type = TypeNetwork,
       DisplayName = truncateName 30 (Network_Name (n_network n)),
       Category = n_category n,
       Details =
         (if SystemNetworks (Network_Name (n_network n)) then ''system''
          else if n_inUse n then ''in use''
          else Network_Driver (n_network n)),
       Size = 0,
       IsProtected = NetworkResource_IsProtected n,
       IsSuggested = NetworkResource_IsSuggested n \<rparr>"

section \<open>The analyzers\<close>

text \<open>
  An analyzer reads the runtime through the gateway and the clock.  The calls it makes
  are parameters here, each standing for what the call returns: a listing entry, the
  map returned by a batch inspection (\<open>inspectByID\<close>), the result of the inspection of
  one resource (an error is \<open>Inl\<close>), the in-use set (a Go \<open>map[string]bool\<close>, read as
  \<open>false\<close> where a key is absent), and \<open>now\<close>, the reading of the clock when the age of the
  record is measured.  \<open>time.Parse(time.RFC3339Nano, s)\<close> belongs to the Go library and
  is the parameter \<open>parseTime\<close> (\<open>None\<close> when it returns an error).
\<close>

record ContainerInspect =
  ContainerInspect_ID :: string
  ContainerInspect_Created :: Time
  ContainerInspect_ConfigLabels :: GoMap

record ImageInspect =
  ImageInspect_ID :: string
  ImageInspect_Size :: int
  ImageInspect_Created :: string
  ImageInspect_Labels :: GoMap
  ImageInspect_ConfigLabels :: GoMap

record VolumeInspect =
  VolumeInspect_Name :: string
  VolumeInspect_Driver :: string
  VolumeInspect_Mountpoint :: string
  VolumeInspect_CreatedAt :: string
  VolumeInspect_Labels :: GoMap

record NetworkInspect =
  NetworkInspect_ID :: string
  NetworkInspect_Name :: string
  NetworkInspect_Created :: string
  NetworkInspect_Driver :: string
  NetworkInspect_Labels :: GoMap

definition LabelComposeProject :: string where
  "LabelComposeProject = ''com.docker.compose.project''"

definition LabelPodmanProject :: string where
  "LabelPodmanProject = ''io.podman.compose.project''"

definition ComposeProjectFromLabels :: "GoMap \<Rightarrow> string" where
  "ComposeProjectFromLabels labels =
     (if labels = None then []
      else if index labels LabelComposeProject \<noteq> [] then index labels LabelComposeProject
      else index labels LabelPodmanProject)"

text \<open>The entries of a Go map, none for \<open>nil\<close>; \<open>for k, v := range m { labels[k] = v }\<close>
  adds them to \<open>labels\<close>, the later value winning.\<close>

definition entries :: "GoMap \<Rightarrow> (string \<rightharpoonup> string)" where
  "entries m = (case m of None \<Rightarrow> Map.empty | Some f \<Rightarrow> f)"

text \<open>The test shared by the four analyzers:
  \<open>cfg.OlderThan > 0 && !createdAt.IsZero()\<close> and \<open>time.Since(createdAt) < cfg.OlderThan\<close>.\<close>

definition notOldEnough :: "Config \<Rightarrow> Time \<Rightarrow> Time \<Rightarrow> bool" where
  "notOldEnough cfg now createdAt =
     (sint (OlderThan cfg) > 0 \<and> \<not> IsZero createdAt
      \<and> Since now createdAt < sint (OlderThan cfg))"

subsection \<open>Containers\<close>

text \<open>The creation instant and the labels of a listed container: from the batch
  inspection, else from the inspection of that container, else the labels of the listing
  and the zero instant.\<close>

definition containerDetail ::
  "(string \<rightharpoonup> ContainerInspect) \<Rightarrow> (string \<Rightarrow> string + ContainerInspect) \<Rightarrow> Container
     \<Rightarrow> Time \<times> (string \<rightharpoonup> string)" where
  "containerDetail inspectByID InspectContainer c =
     (let labels = entries (Container_Labels c)
      in case inspectByID (Container_ID c) of
           Some inspect \<Rightarrow>
             (ContainerInspect_Created inspect,
              labels ++ entries (ContainerInspect_ConfigLabels inspect))
         | None \<Rightarrow>
             (case InspectContainer (Container_ID c) of
                Inr inspect \<Rightarrow>
                  (ContainerInspect_Created inspect,
                   labels ++ entries (ContainerInspect_ConfigLabels inspect))
              | Inl err \<Rightarrow> (0, labels)))"

text \<open>The body of the loop of \<open>AnalyzeContainersWithConfig\<close>: \<open>None\<close> is \<open>continue\<close>.\<close>

definition analyzeContainer ::
  "Config \<Rightarrow> (string \<rightharpoonup> ContainerInspect) \<Rightarrow> (string \<Rightarrow> string + ContainerInspect) \<Rightarrow> Time
     \<Rightarrow> Container \<Rightarrow> ContainerResource option" where
  "analyzeContainer cfg inspectByID InspectContainer now c =
     (case containerDetail inspectByID InspectContainer c of
        (createdAt, labels) \<Rightarrow>
          if notOldEnough cfg now createdAt then None
          else if Exited cfg \<and> Container_State c \<noteq> ''exited'' then None
          else Some \<lparr> c_container = c,
                      c_category = fst (categorizeContainer c (Some labels) cfg),
                      c_labels = Some labels,
                      c_createdAt = createdAt,
                      c_composeProject = ComposeProjectFromLabels (Some labels),
                      c_protectReason = snd (categorizeContainer c (Some labels) cfg) \<rparr>)"

subsection \<open>Images\<close>

text \<open>\<open>strings.TrimSpace\<close> belongs to the Go library and is the parameter \<open>trim\<close>.\<close>

definition NormalizeImageID :: "(string \<Rightarrow> string) \<Rightarrow> string \<Rightarrow> string" where
  "NormalizeImageID trim ident = TrimPrefix (trim ident) ''sha256:''"

text \<open>Size, labels and creation instant after an inspection record has been merged.\<close>

definition mergeImageInspect ::
  "(string \<Rightarrow> Time option) \<Rightarrow> Image \<Rightarrow> ImageInspect \<Rightarrow> int \<times> GoMap \<times> Time" where
  "mergeImageInspect parseTime img inspect =
     (ImageInspect_Size inspect, ImageInspect_Labels inspect,
      (case parseTime (ImageInspect_Created inspect) of
         Some t \<Rightarrow> t
       | None \<Rightarrow> Image_CreatedAtTime img))"

definition imageDetail ::
  "(string \<Rightarrow> string) \<Rightarrow> (string \<Rightarrow> Time option) \<Rightarrow> (string \<Rightarrow> bool)
     \<Rightarrow> (string \<rightharpoonup> ImageInspect) \<Rightarrow> (string \<Rightarrow> string + ImageInspect) \<Rightarrow> Image
     \<Rightarrow> int \<times> GoMap \<times> Time" where
  "imageDetail trim parseTime inspectNeeded inspectByID InspectImage img =
     (let normalizedID = NormalizeImageID trim (Image_ID img);
          listed = (Image_SizeBytes img, Image_ListLabels img, Image_CreatedAtTime img);
          merged =
            (case inspectByID normalizedID of
               Some inspect \<Rightarrow> mergeImageInspect parseTime img inspect
             | None \<Rightarrow>
                 if inspectNeeded normalizedID
                 then (case InspectImage (Image_ID img) of
                         Inr inspect \<Rightarrow> mergeImageInspect parseTime img inspect
                       | Inl err \<Rightarrow> listed)
                 else listed)
      in case merged of
           (size0, labels0, createdAt0) \<Rightarrow>
             let labels = (if labels0 = None then Some Map.empty else labels0);
                 size1 = (if size0 = 0 \<and> Image_HasSize img then Image_SizeBytes img else size0);
                 createdAt1 = (if IsZero createdAt0 \<and> Image_HasCreatedAt img
                               then Image_CreatedAtTime img else createdAt0);
                 createdAt2 = (if IsZero createdAt1 \<and> Image_CreatedAt img \<noteq> []
                               then (case parseTime (Image_CreatedAt img) of
                                       Some t \<Rightarrow> t
                                     | None \<Rightarrow> createdAt1)
                               else createdAt1)
             in (size1, labels, createdAt2))"

definition isDangling :: "Image \<Rightarrow> bool" where
  "isDangling img = (Image_Repository img = ''<none>'' \<and> Image_Tag img = ''<none>'')"

text \<open>The body of the second loop of \<open>AnalyzeImagesWithConfig\<close>.\<close>

definition analyzeImage ::
  "(string \<Rightarrow> string) \<Rightarrow> (string \<Rightarrow> Time option) \<Rightarrow> Config \<Rightarrow> (string \<Rightarrow> bool)
     \<Rightarrow> (string \<Rightarrow> bool) \<Rightarrow> (string \<rightharpoonup> ImageInspect) \<Rightarrow> (string \<Rightarrow> string + ImageInspect)
     \<Rightarrow> Time \<Rightarrow> Image \<Rightarrow> ImageResource option" where
  "analyzeImage trim parseTime cfg inUse inspectNeeded inspectByID InspectImage now img =
     (let used = (inUse (Image_Repository img @ '':'' @ Image_Tag img)
                  \<or> inUse (NormalizeImageID trim (Image_ID img)))
      in case imageDetail trim parseTime inspectNeeded inspectByID InspectImage img of
           (sz, labels, createdAt) \<Rightarrow>
             if notOldEnough cfg now createdAt then None
             else if MinSize cfg > 0 \<and> sz < MinSize cfg then None
             else if Dangling cfg \<and> \<not> isDangling img then None
             else if NoDangling cfg \<and> isDangling img then None
             else Some \<lparr> i_image = img,
                         i_category = fst (categorizeImage img used labels cfg),
                         i_inUse = used,
                         i_size = sz,
                         i_labels = labels,
                         i_createdAt = createdAt,
                         i_protectReason = snd (categorizeImage img used labels cfg) \<rparr>)"

subsection \<open>Volumes\<close>

definition volumeDetail ::
  "(string \<Rightarrow> Time option) \<Rightarrow> (string \<rightharpoonup> VolumeInspect) \<Rightarrow> (string \<Rightarrow> string + VolumeInspect)
     \<Rightarrow> Volume \<Rightarrow> GoMap \<times> Time \<times> string" where
  "volumeDetail parseTime inspectByName InspectVolume vol =
     (let merged = (\<lambda>inspect.
            (VolumeInspect_Labels inspect,
             (case parseTime (VolumeInspect_CreatedAt inspect) of Some t \<Rightarrow> t | None \<Rightarrow> 0),
             ComposeProjectFromLabels (VolumeInspect_Labels inspect)))
      in case inspectByName (Volume_Name vol) of
           Some inspect \<Rightarrow> merged inspect
         | None \<Rightarrow>
             (case InspectVolume (Volume_Name vol) of
                Inr inspect \<Rightarrow> merged inspect
              | Inl err \<Rightarrow> (None, 0, [])))"

definition analyzeVolume ::
  "(string \<Rightarrow> Time option) \<Rightarrow> Config \<Rightarrow> (string \<Rightarrow> bool) \<Rightarrow> (string \<rightharpoonup> VolumeInspect)
     \<Rightarrow> (string \<Rightarrow> string + VolumeInspect) \<Rightarrow> Time \<Rightarrow> Volume \<Rightarrow> VolumeResource option" where
  "analyzeVolume parseTime cfg inUse inspectByName InspectVolume now vol =
     (let used = inUse (Volume_Name vol)
      in case volumeDetail parseTime inspectByName InspectVolume vol of
           (labels, createdAt, composeProject) \<Rightarrow>
             if notOldEnough cfg now createdAt then None
             else if Anonymous cfg \<and> \<not> IsAnonymousVolume (Volume_Name vol) then None
             else Some \<lparr> v_volume = vol,
                         v_category = fst (categorizeVolume vol used labels cfg),
                         v_inUse = used,
                         v_labels = labels,
                         v_createdAt = createdAt,
                         v_composeProject = composeProject,
                         v_protectReason = snd (categorizeVolume vol used labels cfg) \<rparr>)"

subsection \<open>Networks\<close>

definition networkDetail ::
  "(string \<Rightarrow> Time option) \<Rightarrow> (string \<Rightarrow> string + NetworkInspect) \<Rightarrow> Network
     \<Rightarrow> GoMap \<times> Time \<times> string" where
  "networkDetail parseTime InspectNetwork net =
     (case InspectNetwork (Network_ID net) of
        Inr inspect \<Rightarrow>
          (NetworkInspect_Labels inspect,
           (case parseTime (NetworkInspect_Created inspect) of Some t \<Rightarrow> t | None \<Rightarrow> 0),
           ComposeProjectFromLabels (NetworkInspect_Labels inspect))
      | Inl err \<Rightarrow> (None, 0, []))"

definition analyzeNetwork ::
  "(string \<Rightarrow> Time option) \<Rightarrow> Config \<Rightarrow> (string \<Rightarrow> bool) \<Rightarrow> (string \<Rightarrow> string + NetworkInspect)
     \<Rightarrow> Time \<Rightarrow> Network \<Rightarrow> NetworkResource option" where
  "analyzeNetwork parseTime cfg inUse InspectNetwork now net =
     (let used = inUse (Network_Name net)
      in case networkDetail parseTime InspectNetwork net of
           (labels, createdAt, composeProject) \<Rightarrow>
             if notOldEnough cfg now createdAt then None
             else Some \<lparr> n_network = net,
                         n_category = fst (categorizeNetwork net used labels cfg),
                         n_inUse = used,
                         n_labels = labels,
                         n_createdAt = createdAt,
                         n_composeProject = composeProject,
                         n_protectReason = snd (categorizeNetwork net used labels cfg) \<rparr>)"

subsection \<open>The analyzers as a whole\<close>

text \<open>
  The loop over the listing that the four analyzers share: the body either skips the
  entry (\<open>continue\<close>) or appends a record to the results.  \<open>clock i\<close> is the reading of
  the clock at which the age of the entry number \<open>i\<close> of the listing is measured.
\<close>

fun analyzeLoop :: "(Time \<Rightarrow> 'a \<Rightarrow> 'b option) \<Rightarrow> (nat \<Rightarrow> Time) \<Rightarrow> nat \<Rightarrow> 'a list \<Rightarrow> 'b list" where
  "analyzeLoop body clock i [] = []"
| "analyzeLoop body clock i (x # xs) =
     (case body (clock i) x of
        None \<Rightarrow> analyzeLoop body clock (Suc i) xs
      | Some r \<Rightarrow> r # analyzeLoop body clock (Suc i) xs)"

text \<open>
  The calls of the gateway are parameters that stand for what the call returns:
  \<open>listContainers\<close> for \<open>docker.ListContainers()\<close>, \<open>inspectContainers\<close> for
  \<open>docker.InspectContainers\<close> and so on.  A listing that fails ends the analysis with
  that error; a batch inspection or an in-use query that fails is replaced by the empty
  map.
\<close>

definition AnalyzeContainersWithConfig ::
  "(string + Container list) \<Rightarrow> (string list \<Rightarrow> string + (string \<rightharpoonup> ContainerInspect))
     \<Rightarrow> (string \<Rightarrow> string + ContainerInspect) \<Rightarrow> (nat \<Rightarrow> Time) \<Rightarrow> Config
     \<Rightarrow> string + ContainerResource list" where
  "AnalyzeContainersWithConfig listContainers inspectContainers inspectContainer clock cfg =
     (case listContainers of
        Inl err \<Rightarrow> Inl err
      | Inr containers \<Rightarrow>
          let containerIDs = filter (\<lambda>ident. ident \<noteq> []) (map Container_ID containers);
              inspectByID = (case inspectContainers containerIDs of
                               Inl err \<Rightarrow> Map.empty
                             | Inr m \<Rightarrow> m)
          in Inr (analyzeLoop (analyzeContainer cfg inspectByID inspectContainer) clock 0
                    containers))"

text \<open>The test \<open>needsInspect\<close> of the first loop of \<open>AnalyzeImagesWithConfig\<close>.\<close>

definition needsInspect :: "Config \<Rightarrow> Image \<Rightarrow> bool" where
  "needsInspect cfg img =
     ((MinSize cfg > 0 \<and> (\<not> Image_HasSize img \<or> Image_SizeBytes img = 0))
      \<or> (sint (OlderThan cfg) > 0 \<and> \<not> Image_HasCreatedAt img)
      \<or> \<not> Image_HasListLabels img)"

text \<open>
  The first loop of \<open>AnalyzeImagesWithConfig\<close>, with its variables \<open>imageIDs\<close> and
  \<open>inspectNeeded\<close>.  The map \<open>inspectNeeded\<close> only ever holds the value \<open>true\<close>: it is
  the list of its keys.
\<close>

fun inspectLoop ::
  "(string \<Rightarrow> string) \<Rightarrow> Config \<Rightarrow> Image list \<Rightarrow> string list \<Rightarrow> string list
     \<Rightarrow> string list \<times> string list" where
  "inspectLoop trim cfg [] imageIDs inspectNeeded = (imageIDs, inspectNeeded)"
| "inspectLoop trim cfg (img # images) imageIDs inspectNeeded =
     (if NormalizeImageID trim (Image_ID img) \<noteq> []
      then inspectLoop trim cfg images (imageIDs @ [NormalizeImageID trim (Image_ID img)])
             (if needsInspect cfg img
              then inspectNeeded @ [NormalizeImageID trim (Image_ID img)]
              else inspectNeeded)
      else inspectLoop trim cfg images imageIDs inspectNeeded)"

definition AnalyzeImagesWithConfig ::
  "(string \<Rightarrow> string) \<Rightarrow> (string \<Rightarrow> Time option) \<Rightarrow> (string + Image list)
     \<Rightarrow> (string + (string \<Rightarrow> bool)) \<Rightarrow> (string list \<Rightarrow> string + (string \<rightharpoonup> ImageInspect))
     \<Rightarrow> (string \<Rightarrow> string + ImageInspect) \<Rightarrow> (nat \<Rightarrow> Time) \<Rightarrow> Config
     \<Rightarrow> string + ImageResource list" where
  "AnalyzeImagesWithConfig trim parseTime listImages getImagesInUse inspectImages inspectImage
       clock cfg =
     (case listImages of
        Inl err \<Rightarrow> Inl err
      | Inr images \<Rightarrow>
          let inUse = (case getImagesInUse of Inl err \<Rightarrow> (\<lambda>key. False) | Inr m \<Rightarrow> m)
          in case inspectLoop trim cfg images [] [] of
               (imageIDs, inspectNeeded) \<Rightarrow>
                 let idsToInspect = filter (\<lambda>ident. ident \<in> set inspectNeeded) imageIDs;
                     inspectByID =
                       (if length inspectNeeded > 0
                        then (case inspectImages idsToInspect of
                                Inr batchInspect \<Rightarrow> batchInspect
                              | Inl err \<Rightarrow> Map.empty)
                        else Map.empty)
                 in Inr (analyzeLoop
                           (analyzeImage trim parseTime cfg inUse
                              (\<lambda>ident. ident \<in> set inspectNeeded) inspectByID inspectImage)
                           clock 0 images))"

definition AnalyzeVolumesWithConfig ::
  "(string \<Rightarrow> Time option) \<Rightarrow> (string + Volume list)
     \<Rightarrow> (string list \<Rightarrow> string + (string \<rightharpoonup> VolumeInspect)) \<Rightarrow> (string + (string \<Rightarrow> bool))
     \<Rightarrow> (string \<Rightarrow> string + VolumeInspect) \<Rightarrow> (nat \<Rightarrow> Time) \<Rightarrow> Config
     \<Rightarrow> string + VolumeResource list" where
  "AnalyzeVolumesWithConfig parseTime listVolumes inspectVolumes getVolumesInUse inspectVolume
       clock cfg =
     (case listVolumes of
        Inl err \<Rightarrow> Inl err
      | Inr volumes \<Rightarrow>
          let volumeNames = filter (\<lambda>name. name \<noteq> []) (map Volume_Name volumes);
              inspectByName = (case inspectVolumes volumeNames of
                                 Inl err \<Rightarrow> Map.empty
                               | Inr m \<Rightarrow> m);
              inUse = (case getVolumesInUse of Inl err \<Rightarrow> (\<lambda>key. False) | Inr m \<Rightarrow> m)
          in Inr (analyzeLoop (analyzeVolume parseTime cfg inUse inspectByName inspectVolume)
                    clock 0 volumes))"

definition AnalyzeNetworksWithConfig ::
  "(string \<Rightarrow> Time option) \<Rightarrow> (string + Network list) \<Rightarrow> (string + (string \<Rightarrow> bool))
     \<Rightarrow> (string \<Rightarrow> string + NetworkInspect) \<Rightarrow> (nat \<Rightarrow> Time) \<Rightarrow> Config
     \<Rightarrow> string + NetworkResource list" where
  "AnalyzeNetworksWithConfig parseTime listNetworks getNetworksInUse inspectNetwork clock cfg =
     (case listNetworks of
        Inl err \<Rightarrow> Inl err
      | Inr networks \<Rightarrow>
          let inUse = (case getNetworksInUse of Inl err \<Rightarrow> (\<lambda>key. False) | Inr m \<Rightarrow> m)
          in Inr (analyzeLoop (analyzeNetwork parseTime cfg inUse inspectNetwork) clock 0
                    networks))"

section \<open>Running the runtime's command line tool\<close>

text \<open>
  \<open>docker.Run\<close> starts the runtime's command line tool.  What the tool does depends on
  the state \<open>w\<close> of the runtime, and running it changes that state: \<open>run w args\<close> is the
  error message (\<open>Inl\<close>) or the standard output (\<open>Inr\<close>) of the call, and the state after
  it.  Go's \<open>error\<close> is modelled by its message, \<open>nil\<close> by \<open>None\<close>.
\<close>

type_synonym 'w runner = "'w \<Rightarrow> string list \<Rightarrow> (string + string) \<times> 'w"

section \<open>Batch inspection\<close>

text \<open>
  \<open>InspectContainers\<close>, \<open>InspectImages\<close> and \<open>InspectVolumes\<close> are the same two nested
  loops.  The inner loop goes through the decoded entries of one batch: an entry whose
  key is empty is skipped, every other entry is stored under its key.  \<open>prep\<close> is what
  is done to the entry before its key is taken (\<open>InspectImages\<close> fills missing labels
  from \<open>Config.Labels\<close>).
\<close>

fun storeInspected ::
  "('a \<Rightarrow> 'a) \<Rightarrow> ('a \<Rightarrow> string) \<Rightarrow> (string \<rightharpoonup> 'a) \<Rightarrow> 'a list \<Rightarrow> (string \<rightharpoonup> 'a)" where
  "storeInspected prep key result [] = result"
| "storeInspected prep key result (item # inspected) =
     (if key (prep item) = [] then storeInspected prep key result inspected
      else storeInspected prep key (result(key (prep item) \<mapsto> prep item)) inspected)"

text \<open>
  The outer loop takes the next 100 identifiers, runs the command on them and decodes
  its output.  \<open>json.Unmarshal\<close> belongs to the Go library and is the parameter
  \<open>unmarshal\<close>.  An error of the command or of the decoding is returned at once, with no
  map (\<open>return nil, err\<close>); \<open>wrap\<close> is what the function does to the message of a
  decoding error.
\<close>

function inspectBatches ::
  "'w runner \<Rightarrow> (string \<Rightarrow> string + 'a list) \<Rightarrow> string list \<Rightarrow> ('a \<Rightarrow> 'a) \<Rightarrow> ('a \<Rightarrow> string)
     \<Rightarrow> (string \<Rightarrow> string) \<Rightarrow> string list \<Rightarrow> (string \<rightharpoonup> 'a) \<Rightarrow> 'w
     \<Rightarrow> (string + (string \<rightharpoonup> 'a)) \<times> 'w" where
  "inspectBatches run unmarshal cmd prep key wrap ids result w =
     (if ids = [] then (Inr result, w)
      else case run w (cmd @ take 100 ids) of
             (Inl err, w') \<Rightarrow> (Inl err, w')
           | (Inr out, w') \<Rightarrow>
               (case unmarshal out of
                  Inl err \<Rightarrow> (Inl (wrap err), w')
                | Inr inspected \<Rightarrow>
                    inspectBatches run unmarshal cmd prep key wrap (drop 100 ids)
                      (storeInspected prep key result inspected) w'))"
  by pat_completeness auto
termination
  by (relation "measure (\<lambda>(run, unmarshal, cmd, prep, key, wrap, ids, result, w). length ids)")
    auto

declare inspectBatches.simps [simp del]

definition InspectContainers ::
  "'w runner \<Rightarrow> (string \<Rightarrow> string + ContainerInspect list) \<Rightarrow> string list \<Rightarrow> 'w
     \<Rightarrow> (string + (string \<rightharpoonup> ContainerInspect)) \<times> 'w" where
  "InspectContainers run unmarshal ids w =
     inspectBatches run unmarshal [''inspect''] (\<lambda>item. item) ContainerInspect_ID
       (\<lambda>err. err) ids Map.empty w"

definition configLabelsIfNil :: "ImageInspect \<Rightarrow> ImageInspect" where
  "configLabelsIfNil item =
     (if ImageInspect_Labels item = None
      then item\<lparr>ImageInspect_Labels := ImageInspect_ConfigLabels item\<rparr>
      else item)"

definition InspectImages ::
  "(string \<Rightarrow> string) \<Rightarrow> 'w runner \<Rightarrow> (string \<Rightarrow> string + ImageInspect list) \<Rightarrow> string list \<Rightarrow> 'w
     \<Rightarrow> (string + (string \<rightharpoonup> ImageInspect)) \<times> 'w" where
  "InspectImages trim run unmarshal ids w =
     inspectBatches run unmarshal [''inspect''] configLabelsIfNil
       (\<lambda>item. NormalizeImageID trim (ImageInspect_ID item))
       (\<lambda>err. ''failed to parse inspect output: '' @ err) ids Map.empty w"

definition InspectVolumes ::
  "'w runner \<Rightarrow> (string \<Rightarrow> string + VolumeInspect list) \<Rightarrow> string list \<Rightarrow> 'w
     \<Rightarrow> (string + (string \<rightharpoonup> VolumeInspect)) \<times> 'w" where
  "InspectVolumes run unmarshal names w =
     inspectBatches run unmarshal [''volume'', ''inspect''] (\<lambda>item. item) VolumeInspect_Name
       (\<lambda>err. err) names Map.empty w"

section \<open>The deletion orchestrator\<close>

subsection \<open>Removal through the runtime gateway\<close>

text \<open>The \<open>switch\<close> of \<open>docker.Remove\<close> that builds the arguments of the command.\<close>

definition removeArgs :: "string \<Rightarrow> string \<Rightarrow> string list option" where
  "removeArgs resourceType ident =
     (if resourceType = ''container'' then Some [''rm'', ident]
      else if resourceType = ''image'' then Some [''rmi'', ident]
      else if resourceType = ''volume'' then Some [''volume'', ''rm'', ident]
      else if resourceType = ''network'' then Some [''network'', ''rm'', ident]
      else None)"

definition Remove :: "'w runner \<Rightarrow> string \<Rightarrow> string \<Rightarrow> 'w \<Rightarrow> string option \<times> 'w" where
  "Remove run resourceType ident w =
     (case removeArgs resourceType ident of
        None \<Rightarrow> (Some (''unknown resource type: '' @ resourceType), w)
      | Some args \<Rightarrow>
          (case run w args of
             (Inl err, w') \<Rightarrow> (Some err, w')
           | (Inr out, w') \<Rightarrow> (None, w')))"

subsection \<open>Classification of a failure by its message\<close>

definition isDependencyError :: "(string \<Rightarrow> string) \<Rightarrow> string option \<Rightarrow> bool" where
  "isDependencyError lc err =
     (case err of
        None \<Rightarrow> False
      | Some msg \<Rightarrow>
          (let errStr = ToLower lc msg
           in Contains errStr ''dependent'' \<or>
              Contains errStr ''has dependent child images'' \<or>
              Contains errStr ''image is being used'' \<or>
              Contains errStr ''image has dependent child images''))"

definition isAlreadyRemovedError ::
  "(string \<Rightarrow> string) \<Rightarrow> ResourceType \<Rightarrow> string option \<Rightarrow> bool" where
  "isAlreadyRemovedError lc resourceType err =
     (case err of
        None \<Rightarrow> False
      | Some msg \<Rightarrow>
          (let errStr = ToLower lc msg;
               common = (Contains errStr ''not found'' \<or> Contains errStr ''no such'');
               imageNotKnown = (resourceType = TypeImage \<and> Contains errStr ''image not known'')
           in if common
              then (if resourceType = TypeImage then Contains errStr ''image''
                    else if resourceType = TypeContainer then Contains errStr ''container''
                    else if resourceType = TypeVolume then Contains errStr ''volume''
                    else if resourceType = TypeNetwork then Contains errStr ''network''
                    else imageNotKnown)
              else imageNotKnown))"

subsection \<open>The loops\<close>

text \<open>
  The loop of \<open>deleteAll\<close>, with its two variables \<open>deleted\<close> and \<open>errors\<close>.  The count is
  a natural number: it never exceeds the number of resources, so the Go \<open>int\<close> cannot
  overflow.  \<open>fmt.Errorf("%s: %w", name, err)\<close> has the message \<open>name @ '': '' @ err\<close>.
\<close>

fun deleteAll_loop ::
  "(string \<Rightarrow> string) \<Rightarrow> 'w runner \<Rightarrow> Resource list \<Rightarrow> nat \<Rightarrow> string list \<Rightarrow> 'w
     \<Rightarrow> (nat \<times> string list) \<times> 'w" where
  "deleteAll_loop lc run [] deleted errors w = ((deleted, errors), w)"
| "deleteAll_loop lc run (res # rest) deleted errors w =
     (case Remove run (Type res) (ID res) w of
        (Some err, w') \<Rightarrow>
          if isAlreadyRemovedError lc (Type res) (Some err)
          then deleteAll_loop lc run rest (deleted + 1) errors w'
          else deleteAll_loop lc run rest deleted (errors @ [DisplayName res @ '': '' @ err]) w'
      | (None, w') \<Rightarrow> deleteAll_loop lc run rest (deleted + 1) errors w')"

definition deleteAll ::
  "(string \<Rightarrow> string) \<Rightarrow> 'w runner \<Rightarrow> Resource list \<Rightarrow> 'w \<Rightarrow> (nat \<times> string list) \<times> 'w" where
  "deleteAll lc run resources w = deleteAll_loop lc run resources 0 [] w"

text \<open>One pass of \<open>deleteImagesWithRetry\<close> over the pending images: the inner loop, with
  the variables \<open>deleted\<close>, \<open>errors\<close> and \<open>failed\<close>.\<close>

fun imagePass ::
  "(string \<Rightarrow> string) \<Rightarrow> 'w runner \<Rightarrow> Resource list \<Rightarrow> nat \<Rightarrow> string list \<Rightarrow> Resource list
     \<Rightarrow> 'w \<Rightarrow> (nat \<times> string list \<times> Resource list) \<times> 'w" where
  "imagePass lc run [] deleted errors failed w = ((deleted, errors, failed), w)"
| "imagePass lc run (r # rest) deleted errors failed w =
     (case Remove run (Type r) (ID r) w of
        (Some err, w') \<Rightarrow>
          if isAlreadyRemovedError lc (Type r) (Some err)
          then imagePass lc run rest (deleted + 1) errors failed w'
          else if isDependencyError lc (Some err)
          then imagePass lc run rest deleted errors (failed @ [r]) w'
          else imagePass lc run rest deleted (errors @ [DisplayName r @ '': '' @ err]) failed w'
      | (None, w') \<Rightarrow> imagePass lc run rest (deleted + 1) errors failed w')"

text \<open>The outer loop: \<open>for attempt := 0; attempt < 3 && len(pending) > 0; attempt++\<close>.\<close>

function retryLoop ::
  "(string \<Rightarrow> string) \<Rightarrow> 'w runner \<Rightarrow> nat \<Rightarrow> Resource list \<Rightarrow> nat \<Rightarrow> string list \<Rightarrow> 'w
     \<Rightarrow> (nat \<times> string list \<times> Resource list) \<times> 'w" where
  "retryLoop lc run attempt pending deleted errors w =
     (if attempt < 3 \<and> length pending > 0
      then (case imagePass lc run pending deleted errors [] w of
              ((deleted', errors', failed), w') \<Rightarrow>
                retryLoop lc run (attempt + 1) failed deleted' errors' w')
      else ((deleted, errors, pending), w))"
  by pat_completeness auto
termination
  by (relation "measure (\<lambda>(lc, run, attempt, pending, deleted, errors, w). 3 - attempt)") auto

declare retryLoop.simps [simp del]

definition deleteImagesWithRetry ::
  "(string \<Rightarrow> string) \<Rightarrow> 'w runner \<Rightarrow> Resource list \<Rightarrow> 'w \<Rightarrow> (nat \<times> string list) \<times> 'w" where
  "deleteImagesWithRetry lc run resources w =
     (case retryLoop lc run 0 resources 0 [] w of
        ((deleted, errors, pending), w') \<Rightarrow>
          ((deleted,
            errors @ map (\<lambda>r. DisplayName r @ '': has dependent images (not deleted)'') pending),
           w'))"

definition DeleteResources ::
  "(string \<Rightarrow> string) \<Rightarrow> 'w runner \<Rightarrow> Resource list \<Rightarrow> 'w \<Rightarrow> (nat \<times> string list) \<times> 'w" where
  "DeleteResources lc run resources w =
     (let containers = filter (\<lambda>r. Type r = TypeContainer) resources;
          images = filter (\<lambda>r. Type r = TypeImage) resources;
          volumes = filter (\<lambda>r. Type r = TypeVolume) resources;
          networks = filter (\<lambda>r. Type r = TypeNetwork) resources
      in case deleteAll lc run containers w of ((d1, e1), w1) \<Rightarrow>
         case deleteAll lc run networks w1 of ((d2, e2), w2) \<Rightarrow>
         case deleteAll lc run volumes w2 of ((d3, e3), w3) \<Rightarrow>
         case deleteImagesWithRetry lc run images w3 of ((d4, e4), w4) \<Rightarrow>
           ((d1 + d2 + d3 + d4, e1 @ e2 @ e3 @ e4), w4))"

text \<open>
  To speak about the order of the calls, a runner is wrapped so that the state also
  holds the list of the argument vectors it was called with, oldest first.
\<close>

definition recording :: "'w runner \<Rightarrow> ('w \<times> string list list) runner" where
  "recording run = (\<lambda>(w, calls) args.
     case run w args of (res, w') \<Rightarrow> (res, (w', calls @ [args])))"

text \<open>The commands that removing a list of resources issues, one for each resource whose
  type \<open>docker.Remove\<close> knows.\<close>

definition removalCalls :: "Resource list \<Rightarrow> string list list" where
  "removalCalls rs =
     concat (map (\<lambda>r. case removeArgs (Type r) (ID r) of None \<Rightarrow> [] | Some args \<Rightarrow> [args]) rs)"

section \<open>Scenarios\<close>

text \<open>Concrete values used to evaluate the definitions.\<close>

definition upperHexName :: string where
  "upperHexName = ''0123456789ABCDEF0123456789ABCDEF0123456789ABCDEF0123456789ABCDEF''"

definition lowerHexName :: string where
  "lowerHexName = ''0123456789abcdef0123456789abcdef0123456789abcdef0123456789abcdef''"

definition noConfig :: Config where
  "noConfig = \<lparr> Yes = False, DryRun = False, OlderThan = 0, MinSize = 0, Dangling = False,
                 NoDangling = False, Exited = False, Anonymous = False \<rparr>"

definition protectLabels :: GoMap where
  "protectLabels = Some [LabelProtect \<mapsto> ''true'']"

definition exitedContainer :: Container where
  "exitedContainer = \<lparr> Container_ID = ''c1'', Container_Names = ''/web'',
       Container_Image = ''nginx:latest'', Container_State = ''exited'',
       Container_Status = ''Exited (0) 2 hours ago'', Container_CreatedAt = 0,
       Container_Size = ''0B'', Container_Labels = Some Map.empty \<rparr>"

definition danglingImage :: Image where
  "danglingImage = \<lparr> Image_ID = ''sha256:0a1b2c'', Image_Repository = ''<none>'',
       Image_Tag = ''<none>'', Image_CreatedAt = [], Image_Size = ''10MB'',
       Image_SizeBytes = 10485760, Image_HasSize = True, Image_CreatedAtTime = 0,
       Image_HasCreatedAt = False, Image_ListLabels = Some Map.empty,
       Image_HasListLabels = True \<rparr>"

definition anonymousVolume :: Volume where
  "anonymousVolume = \<lparr> Volume_Name = lowerHexName, Volume_Driver = ''local'',
       Volume_Mountpoint = [] \<rparr>"

definition customNetwork :: Network where
  "customNetwork = \<lparr> Network_ID = ''n1'', Network_Name = ''backend'',
       Network_Driver = ''bridge'', Network_Scope = ''local'' \<rparr>"

definition exitedRecord :: ContainerResource where
  "exitedRecord = \<lparr> c_container = exitedContainer, c_category = CategorySuggested,
       c_labels = protectLabels, c_createdAt = 0, c_composeProject = [],
       c_protectReason = [] \<rparr>"

definition plainResource :: "ResourceType \<Rightarrow> string \<Rightarrow> Resource" where
  "plainResource t name = \<lparr> ID = name, Type = t, DisplayName = name,
       Category = CategorySuggested, Details = [], Size = 0, IsProtected = False,
       IsSuggested = True \<rparr>"

definition c1 :: Resource where "c1 = plainResource TypeContainer ''c1''"
definition n1 :: Resource where "n1 = plainResource TypeNetwork ''n1''"
definition v1 :: Resource where "v1 = plainResource TypeVolume ''v1''"
definition i1 :: Resource where "i1 = plainResource TypeImage ''i1''"
definition i2 :: Resource where "i2 = plainResource TypeImage ''i2''"

text \<open>A runtime without state in which removing \<open>c1\<close> always fails with
  \<open>no such container\<close>, removing \<open>i1\<close> always fails with \<open>has dependent child images\<close>,
  and every other command succeeds.\<close>

definition scenario_run :: "unit runner" where
  "scenario_run w args =
     (if args = [''rm'', ''c1''] then (Inl ''no such container'', w)
      else if args = [''rmi'', ''i1''] then (Inl ''has dependent child images'', w)
      else (Inr [], w))"

text \<open>A runtime in which \<open>c1\<close> has disappeared: the message is the one \<open>docker.Run\<close>
  builds from the command and the standard error of \<open>docker rm\<close>.\<close>

definition goneMessage :: string where
  "goneMessage = ''docker rm c1: Error response from daemon: No such container: c1''"

definition gone_run :: "unit runner" where
  "gone_run w args =
     (if args = [''rm'', ''c1''] then (Inl goneMessage, w) else (Inr [], w))"

text \<open>A configuration whose only filter is a minimum age of 100 nanoseconds, and the
  inspection results of a runtime in which \<open>c1\<close> was created at the instant 950.\<close>

definition ageConfig :: Config where
  "ageConfig = noConfig\<lparr>OlderThan := 100\<rparr>"

definition createdAt950 :: "string \<rightharpoonup> ContainerInspect" where
  "createdAt950 = [''c1'' \<mapsto> \<lparr> ContainerInspect_ID = ''c1'', ContainerInspect_Created = 950,
       ContainerInspect_ConfigLabels = None \<rparr>]"

definition inspectFails :: "string \<Rightarrow> string + 'a" where
  "inspectFails ident = Inl ''no such object''"

text \<open>
  A runtime that holds the image \<open>good\<close> and not the image \<open>gone\<close>: as the command line
  tools do, \<open>inspect\<close> fails when one of the objects it is asked for does not exist.  The
  decoder stands for \<open>json.Unmarshal\<close> on the output for \<open>good\<close>, which here also holds
  an entry without an identifier.
\<close>

definition goodImage :: ImageInspect where
  "goodImage = \<lparr> ImageInspect_ID = ''sha256:good'', ImageInspect_Size = 10485760,
       ImageInspect_Created = ''2024-01-01T00:00:00Z'', ImageInspect_Labels = None,
       ImageInspect_ConfigLabels = protectLabels \<rparr>"

definition noIdImage :: ImageInspect where
  "noIdImage = \<lparr> ImageInspect_ID = [], ImageInspect_Size = 0, ImageInspect_Created = [],
       ImageInspect_Labels = None, ImageInspect_ConfigLabels = None \<rparr>"

definition inspect_run :: "unit runner" where
  "inspect_run w args =
     (if ''gone'' \<in> set args
      then (Inl ''docker inspect good gone: Error response from daemon: No such object: gone'', w)
      else (Inr ''[good]'', w))"

definition decodeImages :: "string \<Rightarrow> string + ImageInspect list" where
  "decodeImages out = Inr [goodImage, noIdImage]"

text \<open>A volume listing whose output for two volumes does not decode.\<close>

definition volume_run :: "unit runner" where
  "volume_run w args = (Inr ''[{Name: v1}, {Name: 7}]'', w)"

definition decodeVolumes :: "string \<Rightarrow> string + VolumeInspect list" where
  "decodeVolumes out =
     Inl ''json: cannot unmarshal number into Go struct field VolumeInspect.Name of type string''"

text \<open>
  A runtime in which the removal of the image \<open>i1\<close> always fails with a given message,
  and three such messages: one that says the image is gone and also names dependent
  child images, one about an image in use written with capital letters, and one that
  only says the image is gone.
\<close>

definition failing_run :: "string \<Rightarrow> unit runner" where
  "failing_run msg w args =
     (if args = [''rmi'', ''i1''] then (Inl msg, w) else (Inr [], w))"

definition bothMessage :: string where
  "bothMessage = ''No such image: i1 (image has dependent child images)''"

definition upperMessage :: string where
  "upperMessage = ''Conflict: Image Is Being Used By Running Container 1f''"

definition missingMessage :: string where
  "missingMessage = ''Error response from daemon: No such image: i1''"

text \<open>
  Listings for the analyzers: a second container that no inspection knows; a running
  container; images whose listing gives their creation instant; an image whose listing
  carries the protect label but no creation instant, and the record that inspecting it
  returns; a named volume; and a decoder of creation times for the scenarios.
\<close>

definition undatedContainer :: Container where
  "undatedContainer = exitedContainer\<lparr>Container_ID := ''c2''\<rparr>"

definition runningContainer :: Container where
  "runningContainer = exitedContainer\<lparr>Container_ID := ''c3'', Container_State := ''running''\<rparr>"

definition ageExitedConfig :: Config where
  "ageExitedConfig = ageConfig\<lparr>Exited := True\<rparr>"

definition oldImage :: Image where
  "oldImage = danglingImage\<lparr>Image_HasCreatedAt := True, Image_CreatedAtTime := 500\<rparr>"

definition youngImage :: Image where
  "youngImage = danglingImage\<lparr>Image_ID := ''sha256:0a1b2d'', Image_HasCreatedAt := True,
       Image_CreatedAtTime := 950\<rparr>"

definition labelledImage :: Image where
  "labelledImage = danglingImage\<lparr>Image_ListLabels := protectLabels\<rparr>"

definition labelledInspect :: "string \<rightharpoonup> ImageInspect" where
  "labelledInspect = [''0a1b2c'' \<mapsto> \<lparr> ImageInspect_ID = ''sha256:0a1b2c'',
       ImageInspect_Size = 10485760, ImageInspect_Created = ''t500'',
       ImageInspect_Labels = Some Map.empty, ImageInspect_ConfigLabels = None \<rparr>]"

definition parseStub :: "string \<Rightarrow> Time option" where
  "parseStub s = (if s = ''t500'' then Some 500 else if s = ''t950'' then Some 950 else None)"

definition namedVolume :: Volume where
  "namedVolume = \<lparr> Volume_Name = ''data-01'', Volume_Driver = ''local'',
       Volume_Mountpoint = [] \<rparr>"

definition inspectNamedVolume :: "string \<Rightarrow> string + VolumeInspect" where
  "inspectNamedVolume name =
     (if name = ''data-01''
      then Inr \<lparr> VolumeInspect_Name = ''data-01'', VolumeInspect_Driver = ''local'',
                 VolumeInspect_Mountpoint = [], VolumeInspect_CreatedAt = ''t950'',
                 VolumeInspect_Labels = None \<rparr>
      else Inl ''no such volume'')"

definition inspectCustomNetwork :: "string \<Rightarrow> string + NetworkInspect" where
  "inspectCustomNetwork ident =
     Inr \<lparr> NetworkInspect_ID = ''n1'', NetworkInspect_Name = ''backend'',
           NetworkInspect_Created = ''t500'', NetworkInspect_Driver = ''bridge'',
           NetworkInspect_Labels = None \<rparr>"

section \<open>Verification\<close>

subsection \<open>Anonymous volume names\<close>

lemma hexLoop_iff: "hexLoop s \<longleftrightarrow> (\<forall>c\<in>set s. isLowerHexDigit c)"
  by (induction s) auto

lemma isLowerHexDigit_set: "isLowerHexDigit c \<longleftrightarrow> c \<in> set ''0123456789abcdef''"
proof
  assume "isLowerHexDigit c"
  then have "(of_char c :: nat) \<in>
      {48, 49, 50, 51, 52, 53, 54, 55, 56, 57, 97, 98, 99, 100, 101, 102}"
    unfolding isLowerHexDigit_def by (simp only: insert_iff empty_iff) arith
  also have "{48, 49, 50, 51, 52, 53, 54, 55, 56, 57, 97, 98, 99, 100, 101, 102}
      = (of_char :: char \<Rightarrow> nat) ` set ''0123456789abcdef''"
    by simp
  finally show "c \<in> set ''0123456789abcdef''"
    by (simp only: inj_image_mem_iff [OF inj_of_char])
next
  assume "c \<in> set ''0123456789abcdef''"
  then show "isLowerHexDigit c"
    by (auto simp: isLowerHexDigit_def)
qed

text \<open>
  Claim C7, as the code has it: \<open>IsAnonymousVolume\<close> returns true exactly for the names
  of 64 characters that are all among \<open>0\<close>..\<open>9\<close> and the lower-case letters \<open>a\<close>..\<open>f\<close>;
  it returns false for every other name.
\<close>

theorem IsAnonymousVolume_lower_hex:
  "IsAnonymousVolume name \<longleftrightarrow> length name = 64 \<and> set name \<subseteq> set ''0123456789abcdef''"
proof -
  define H where "H = set ''0123456789abcdef''"
  have "hexLoop name \<longleftrightarrow> set name \<subseteq> H"
    unfolding hexLoop_iff isLowerHexDigit_set H_def by blast
  then have "IsAnonymousVolume name \<longleftrightarrow> length name = 64 \<and> set name \<subseteq> H"
    unfolding IsAnonymousVolume_def by simp
  then show ?thesis unfolding H_def .
qed

theorem IsAnonymousVolume_lower_hex_witness:
  "IsAnonymousVolume lowerHexName \<and> length lowerHexName = 64
   \<and> set lowerHexName \<subseteq> set ''0123456789abcdef''"
  using IsAnonymousVolume_lower_hex [of lowerHexName]
  by (simp add: lowerHexName_def)

text \<open>
  Claim C7 as stated fails: a name of exactly 64 hexadecimal characters whose letters
  are upper-case is not recognised.
\<close>

theorem IsAnonymousVolume_upper_hex_counterexample:
  "length upperHexName = 64
   \<and> set upperHexName \<subseteq> set ''0123456789abcdefABCDEF''
   \<and> \<not> IsAnonymousVolume upperHexName"
  by (simp add: upperHexName_def IsAnonymousVolume_def isLowerHexDigit_def)

subsection \<open>Category queries\<close>

text \<open>
  Claim C6: for the record of every kind, \<open>IsProtected\<close> holds exactly when the stored
  category is \<open>protected\<close> and \<open>IsSuggested\<close> exactly when it is \<open>suggested\<close>; the
  labels of the record play no part, and the interface value built from the record
  answers the same.
\<close>

theorem IsProtected_IsSuggested_category:
  "(ContainerResource_IsProtected c \<longleftrightarrow> c_category c = CategoryProtected)
   \<and> (ContainerResource_IsSuggested c \<longleftrightarrow> c_category c = CategorySuggested)
   \<and> (ImageResource_IsProtected i \<longleftrightarrow> i_category i = CategoryProtected)
   \<and> (ImageResource_IsSuggested i \<longleftrightarrow> i_category i = CategorySuggested)
   \<and> (VolumeResource_IsProtected v \<longleftrightarrow> v_category v = CategoryProtected)
   \<and> (VolumeResource_IsSuggested v \<longleftrightarrow> v_category v = CategorySuggested)
   \<and> (NetworkResource_IsProtected n \<longleftrightarrow> n_category n = CategoryProtected)
   \<and> (NetworkResource_IsSuggested n \<longleftrightarrow> n_category n = CategorySuggested)
   \<and> ContainerResource_IsProtected (c\<lparr>c_labels := l\<rparr>) = ContainerResource_IsProtected c
   \<and> ContainerResource_IsSuggested (c\<lparr>c_labels := l\<rparr>) = ContainerResource_IsSuggested c
   \<and> ImageResource_IsProtected (i\<lparr>i_labels := l\<rparr>) = ImageResource_IsProtected i
   \<and> ImageResource_IsSuggested (i\<lparr>i_labels := l\<rparr>) = ImageResource_IsSuggested i
   \<and> VolumeResource_IsProtected (v\<lparr>v_labels := l\<rparr>) = VolumeResource_IsProtected v
   \<and> VolumeResource_IsSuggested (v\<lparr>v_labels := l\<rparr>) = VolumeResource_IsSuggested v
   \<and> NetworkResource_IsProtected (n\<lparr>n_labels := l\<rparr>) = NetworkResource_IsProtected n
   \<and> NetworkResource_IsSuggested (n\<lparr>n_labels := l\<rparr>) = NetworkResource_IsSuggested n
   \<and> (\<forall>r \<in> {ContainerResource_Resource c, ImageResource_Resource i,
               VolumeResource_Resource v, NetworkResource_Resource n}.
         (IsProtected r \<longleftrightarrow> Category r = CategoryProtected)
         \<and> (IsSuggested r \<longleftrightarrow> Category r = CategorySuggested))"
  by (simp add: ContainerResource_IsProtected_def ContainerResource_IsSuggested_def
      ImageResource_IsProtected_def ImageResource_IsSuggested_def
      VolumeResource_IsProtected_def VolumeResource_IsSuggested_def
      NetworkResource_IsProtected_def NetworkResource_IsSuggested_def
      ContainerResource_Resource_def ImageResource_Resource_def
      VolumeResource_Resource_def NetworkResource_Resource_def)

theorem IsProtected_IsSuggested_category_witness:
  "\<not> ContainerResource_IsProtected exitedRecord
   \<and> ContainerResource_IsSuggested exitedRecord
   \<and> \<not> IsProtected (ContainerResource_Resource exitedRecord)
   \<and> IsSuggested (ContainerResource_Resource exitedRecord)"
  using IsProtected_IsSuggested_category [of exitedRecord]
  by (simp add: exitedRecord_def ContainerResource_Resource_def)

subsection \<open>Categorization\<close>

text \<open>
  Claim C1: when the label mapping of a resource holds \<open>sweep.protect = true\<close>, each of
  the four categorization functions answers \<open>protected\<close> with the reason
  \<open>protected by label\<close>, whatever the listing entry, the in-use flag and the
  configuration are.
\<close>

theorem protect_label_overrides:
  "labels = Some m \<and> m LabelProtect = Some ''true'' \<longrightarrow>
     categorizeContainer c labels cfg = (CategoryProtected, ''protected by label'')
   \<and> categorizeImage img inUse labels cfg = (CategoryProtected, ''protected by label'')
   \<and> categorizeVolume vol inUse labels cfg = (CategoryProtected, ''protected by label'')
   \<and> categorizeNetwork net inUse labels cfg = (CategoryProtected, ''protected by label'')"
  by (simp add: categorizeContainer_def categorizeImage_def categorizeVolume_def
      categorizeNetwork_def index_def)

theorem protect_label_overrides_witness:
  "protectLabels = Some [LabelProtect \<mapsto> ''true'']
   \<and> [LabelProtect \<mapsto> ''true''] LabelProtect = Some ''true''
   \<and> categorizeContainer exitedContainer protectLabels noConfig
       = (CategoryProtected, ''protected by label'')
   \<and> categorizeImage danglingImage False protectLabels noConfig
       = (CategoryProtected, ''protected by label'')
   \<and> categorizeVolume anonymousVolume False protectLabels noConfig
       = (CategoryProtected, ''protected by label'')
   \<and> categorizeNetwork customNetwork False protectLabels noConfig
       = (CategoryProtected, ''protected by label'')"
  using protect_label_overrides
    [of protectLabels "[LabelProtect \<mapsto> ''true'']" exitedContainer noConfig
        danglingImage False anonymousVolume customNetwork]
  by (simp add: protectLabels_def)

text \<open>
  Claim C5: for a container whose label mapping does not hold \<open>sweep.protect = true\<close>,
  the category follows from the state alone: \<open>running\<close>, \<open>paused\<close> and \<open>restarting\<close>
  give \<open>protected\<close>; \<open>exited\<close>, \<open>dead\<close> and \<open>created\<close> give \<open>suggested\<close>; every other state
  gives \<open>unused\<close>.
\<close>

theorem categorizeContainer_by_state:
  "(\<forall>m. labels = Some m \<longrightarrow> m LabelProtect \<noteq> Some ''true'') \<longrightarrow>
     fst (categorizeContainer c labels cfg) =
       (if Container_State c \<in> {''running'', ''paused'', ''restarting''} then CategoryProtected
        else if Container_State c \<in> {''exited'', ''dead'', ''created''} then CategorySuggested
        else CategoryUnused)"
  by (auto simp add: categorizeContainer_def index_def split: option.splits)

theorem categorizeContainer_by_state_witness:
  "fst (categorizeContainer exitedContainer (Some Map.empty) noConfig) = CategorySuggested
   \<and> fst (categorizeContainer (exitedContainer\<lparr>Container_State := ''running''\<rparr>)
            (Some Map.empty) noConfig) = CategoryProtected
   \<and> fst (categorizeContainer (exitedContainer\<lparr>Container_State := ''removing''\<rparr>)
            (Some Map.empty) noConfig) = CategoryUnused"
  using categorizeContainer_by_state [of "Some Map.empty" exitedContainer noConfig]
    categorizeContainer_by_state
      [of "Some Map.empty" "exitedContainer\<lparr>Container_State := ''running''\<rparr>" noConfig]
    categorizeContainer_by_state
      [of "Some Map.empty" "exitedContainer\<lparr>Container_State := ''removing''\<rparr>" noConfig]
  by (simp add: exitedContainer_def)

subsection \<open>Substrings\<close>

lemma HasPrefix_iff: "HasPrefix s p \<longleftrightarrow> (\<exists>q. s = p @ q)"
  by (induction s p rule: HasPrefix.induct) auto

lemma Contains_iff: "Contains s sub \<longleftrightarrow> (\<exists>p q. s = p @ sub @ q)"
proof (induction s)
  case Nil
  show ?case by auto
next
  case (Cons c s)
  have "(\<exists>p q. c # s = p @ sub @ q) \<longleftrightarrow> (\<exists>q. c # s = sub @ q) \<or> (\<exists>p q. s = p @ sub @ q)"
    (is "?L \<longleftrightarrow> ?A \<or> ?B")
  proof
    assume ?L
    then obtain p q where pq: "c # s = p @ sub @ q" by blast
    show "?A \<or> ?B"
    proof (cases p)
      case Nil
      with pq show ?thesis by auto
    next
      case (Cons a p')
      with pq have "s = p' @ sub @ q" by simp
      then show ?thesis by blast
    qed
  next
    assume "?A \<or> ?B"
    then show ?L
    proof
      assume ?A
      then obtain q where "c # s = [] @ sub @ q" by auto
      then show ?L by blast
    next
      assume ?B
      then obtain p q where "s = p @ sub @ q" by blast
      then have "c # s = (c # p) @ sub @ q" by simp
      then show ?L by blast
    qed
  qed
  with Cons show ?case by (simp add: HasPrefix_iff)
qed

lemma Contains_part: "Contains s (a @ b @ c) \<Longrightarrow> Contains s b"
proof -
  assume "Contains s (a @ b @ c)"
  then obtain p q where "s = p @ (a @ b @ c) @ q" unfolding Contains_iff by blast
  then have "s = (p @ a) @ b @ (c @ q)" by simp
  then show ?thesis unfolding Contains_iff by blast
qed

lemma isDependencyError_iff:
  "isDependencyError lc (Some msg) \<longleftrightarrow>
     Contains (ToLower lc msg) ''dependent'' \<or> Contains (ToLower lc msg) ''image is being used''"
proof -
  have a: "Contains s ''has dependent child images'' \<Longrightarrow> Contains s ''dependent''" for s
    using Contains_part [of s "''has ''" "''dependent''" "'' child images''"] by simp
  have b: "Contains s ''image has dependent child images'' \<Longrightarrow> Contains s ''dependent''" for s
    using Contains_part [of s "''image has ''" "''dependent''" "'' child images''"] by simp
  show ?thesis
    unfolding isDependencyError_def using a b by (auto simp: Let_def)
qed

subsection \<open>Every selected resource is counted once\<close>

lemma deleteAll_loop_count:
  "deleteAll_loop lc run rs d es w = ((d', es'), w') \<Longrightarrow>
     d' + length es' = d + length es + length rs"
proof (induction rs arbitrary: d es w)
  case Nil
  then show ?case by simp
next
  case (Cons r rs)
  show ?case
  proof (cases "Remove run (Type r) (ID r) w")
    case (Pair e w1)
    show ?thesis
    proof (cases e)
      case None
      with Pair Cons.prems have "deleteAll_loop lc run rs (d + 1) es w1 = ((d', es'), w')"
        by simp
      from Cons.IH [OF this] show ?thesis by simp
    next
      case (Some err)
      show ?thesis
      proof (cases "isAlreadyRemovedError lc (Type r) (Some err)")
        case True
        with Some Pair Cons.prems have "deleteAll_loop lc run rs (d + 1) es w1 = ((d', es'), w')"
          by simp
        from Cons.IH [OF this] show ?thesis by simp
      next
        case False
        with Some Pair Cons.prems
        have "deleteAll_loop lc run rs d (es @ [DisplayName r @ '': '' @ err]) w1 = ((d', es'), w')"
          by simp
        from Cons.IH [OF this] show ?thesis by simp
      qed
    qed
  qed
qed

lemma imagePass_count:
  "imagePass lc run rs d es fs w = ((d', es', fs'), w') \<Longrightarrow>
     d' + length es' + length fs' = d + length es + length fs + length rs"
proof (induction rs arbitrary: d es fs w)
  case Nil
  then show ?case by simp
next
  case (Cons r rs)
  obtain e w1 where R: "Remove run (Type r) (ID r) w = (e, w1)" by (cases "Remove run (Type r) (ID r) w")
  consider (ok) "e = None"
    | (gone) err where "e = Some err" "isAlreadyRemovedError lc (Type r) (Some err)"
    | (dep) err where "e = Some err" "\<not> isAlreadyRemovedError lc (Type r) (Some err)"
        "isDependencyError lc (Some err)"
    | (bad) err where "e = Some err" "\<not> isAlreadyRemovedError lc (Type r) (Some err)"
        "\<not> isDependencyError lc (Some err)"
    by (cases e) auto
  then show ?case
  proof cases
    case ok
    with R Cons.prems have "imagePass lc run rs (d + 1) es fs w1 = ((d', es', fs'), w')" by simp
    from Cons.IH [OF this] show ?thesis by simp
  next
    case gone
    with R Cons.prems have "imagePass lc run rs (d + 1) es fs w1 = ((d', es', fs'), w')" by simp
    from Cons.IH [OF this] show ?thesis by simp
  next
    case dep
    with R Cons.prems have "imagePass lc run rs d es (fs @ [r]) w1 = ((d', es', fs'), w')" by simp
    from Cons.IH [OF this] show ?thesis by simp
  next
    case bad
    with R Cons.prems
    have "imagePass lc run rs d (es @ [DisplayName r @ '': '' @ err]) fs w1 = ((d', es', fs'), w')"
      by simp
    from Cons.IH [OF this] show ?thesis by simp
  qed
qed

lemma retryLoop_count:
  "retryLoop lc run attempt pending d es w = ((d', es', pending'), w') \<Longrightarrow>
     d' + length es' + length pending' = d + length es + length pending"
proof (induction lc run attempt pending d es w rule: retryLoop.induct)
  case (1 lc run attempt pending d es w)
  show ?case
  proof (cases "attempt < 3 \<and> length pending > 0")
    case False
    then have "retryLoop lc run attempt pending d es w = ((d, es, pending), w)"
      by (subst retryLoop.simps) auto
    with "1.prems" show ?thesis by simp
  next
    case True
    obtain d1 es1 failed w1 where P: "imagePass lc run pending d es [] w = ((d1, es1, failed), w1)"
      by (metis surj_pair)
    from True P have "retryLoop lc run attempt pending d es w
        = retryLoop lc run (attempt + 1) failed d1 es1 w1"
      by (subst retryLoop.simps) auto
    with "1.prems" have "retryLoop lc run (attempt + 1) failed d1 es1 w1 = ((d', es', pending'), w')"
      by simp
    from "1.IH" [OF True P [symmetric] refl refl this] imagePass_count [OF P]
    show ?thesis by simp
  qed
qed

lemma deleteImagesWithRetry_count:
  "deleteImagesWithRetry lc run rs w = ((d, es), w') \<Longrightarrow> d + length es = length rs"
  unfolding deleteImagesWithRetry_def
  by (auto split: prod.splits dest!: retryLoop_count)

lemma deleteAll_count:
  "deleteAll lc run rs w = ((d, es), w') \<Longrightarrow> d + length es = length rs"
  unfolding deleteAll_def by (auto dest!: deleteAll_loop_count)

lemma four_kinds_partition:
  "\<forall>r\<in>set rs. Type r \<in> {TypeContainer, TypeImage, TypeVolume, TypeNetwork} \<Longrightarrow>
     length (filter (\<lambda>r. Type r = TypeContainer) rs)
     + length (filter (\<lambda>r. Type r = TypeNetwork) rs)
     + length (filter (\<lambda>r. Type r = TypeVolume) rs)
     + length (filter (\<lambda>r. Type r = TypeImage) rs) = length rs"
  by (induction rs) (auto simp: TypeContainer_def TypeImage_def TypeVolume_def TypeNetwork_def)

text \<open>
  Claim C10: when every selected resource has one of the four kinds, the number of
  deleted resources and the number of errors returned by \<open>DeleteResources\<close> add up to
  the number of selected resources.
\<close>

theorem DeleteResources_accounts_for_all:
  "(\<forall>r\<in>set resources. Type r \<in> {TypeContainer, TypeImage, TypeVolume, TypeNetwork}) \<longrightarrow>
     fst (fst (DeleteResources lc run resources w))
       + length (snd (fst (DeleteResources lc run resources w))) = length resources"
proof
  assume kinds: "\<forall>r\<in>set resources. Type r \<in> {TypeContainer, TypeImage, TypeVolume, TypeNetwork}"
  obtain d1 e1 w1 where 1: "deleteAll lc run (filter (\<lambda>r. Type r = TypeContainer) resources) w = ((d1, e1), w1)"
    by (metis surj_pair)
  obtain d2 e2 w2 where 2: "deleteAll lc run (filter (\<lambda>r. Type r = TypeNetwork) resources) w1 = ((d2, e2), w2)"
    by (metis surj_pair)
  obtain d3 e3 w3 where 3: "deleteAll lc run (filter (\<lambda>r. Type r = TypeVolume) resources) w2 = ((d3, e3), w3)"
    by (metis surj_pair)
  obtain d4 e4 w4 where 4: "deleteImagesWithRetry lc run (filter (\<lambda>r. Type r = TypeImage) resources) w3 = ((d4, e4), w4)"
    by (metis surj_pair)
  have "DeleteResources lc run resources w = ((d1 + d2 + d3 + d4, e1 @ e2 @ e3 @ e4), w4)"
    unfolding DeleteResources_def by (simp add: 1 2 3 4)
  with deleteAll_count [OF 1] deleteAll_count [OF 2] deleteAll_count [OF 3]
    deleteImagesWithRetry_count [OF 4] four_kinds_partition [OF kinds]
  show "fst (fst (DeleteResources lc run resources w))
       + length (snd (fst (DeleteResources lc run resources w))) = length resources"
    by simp
qed

subsection \<open>Evaluating the scenarios\<close>

lemma kinds_distinct:
  "TypeContainer \<noteq> TypeImage" "TypeContainer \<noteq> TypeVolume" "TypeContainer \<noteq> TypeNetwork"
  "TypeImage \<noteq> TypeContainer" "TypeImage \<noteq> TypeVolume" "TypeImage \<noteq> TypeNetwork"
  "TypeVolume \<noteq> TypeContainer" "TypeVolume \<noteq> TypeImage" "TypeVolume \<noteq> TypeNetwork"
  "TypeNetwork \<noteq> TypeContainer" "TypeNetwork \<noteq> TypeImage" "TypeNetwork \<noteq> TypeVolume"
  by (simp_all add: TypeContainer_def TypeImage_def TypeVolume_def TypeNetwork_def)

lemma removeArgs_kinds:
  "removeArgs TypeContainer ident = Some [''rm'', ident]"
  "removeArgs TypeImage ident = Some [''rmi'', ident]"
  "removeArgs TypeVolume ident = Some [''volume'', ''rm'', ident]"
  "removeArgs TypeNetwork ident = Some [''network'', ''rm'', ident]"
  by (simp_all add: removeArgs_def TypeContainer_def TypeImage_def TypeVolume_def TypeNetwork_def)

lemma plainResource_fields:
  "ID (plainResource t name) = name" "Type (plainResource t name) = t"
  "DisplayName (plainResource t name) = name"
  by (simp_all add: plainResource_def)

lemma scenario_Remove:
  "Remove scenario_run TypeContainer ''c1'' w = (Some ''no such container'', w)"
  "Remove scenario_run TypeImage ''i1'' w = (Some ''has dependent child images'', w)"
  "Remove scenario_run TypeImage ''i2'' w = (None, w)"
  "Remove scenario_run TypeVolume ''v1'' w = (None, w)"
  "Remove scenario_run TypeNetwork ''n1'' w = (None, w)"
  by (simp_all add: Remove_def removeArgs_kinds scenario_run_def)

lemma scenario_messages:
  "isAlreadyRemovedError lc TypeContainer (Some ''no such container'')"
  "\<not> isAlreadyRemovedError lc TypeImage (Some ''has dependent child images'')"
  "isDependencyError lc (Some ''has dependent child images'')"
  by (simp_all add: isAlreadyRemovedError_def isDependencyError_def ToLower_def isASCII_def
      lowerASCII_def kinds_distinct)

lemmas scenario_simps =
  c1_def n1_def v1_def i1_def i2_def plainResource_fields kinds_distinct scenario_Remove
  scenario_messages DeleteResources_def deleteAll_def deleteImagesWithRetry_def retryLoop.simps

theorem DeleteResources_accounts_for_all_witness:
  "fst (fst (DeleteResources id scenario_run [v1, i1, c1, i2] ())) = 3
   \<and> length (snd (fst (DeleteResources id scenario_run [v1, i1, c1, i2] ()))) = 1
   \<and> length [v1, i1, c1, i2] = 4"
  using DeleteResources_accounts_for_all [of "[v1, i1, c1, i2]" id scenario_run "()"]
  by (simp add: scenario_simps)

subsection \<open>The order of the removal commands\<close>

lemma Remove_recording:
  "Remove (recording run) t i (w, calls) =
     (fst (Remove run t i w),
      (snd (Remove run t i w),
       calls @ (case removeArgs t i of None \<Rightarrow> [] | Some args \<Rightarrow> [args])))"
  unfolding Remove_def recording_def
  by (auto split: option.splits prod.splits sum.splits)

lemma removalCalls_Cons:
  "removalCalls (r # rs) =
     (case removeArgs (Type r) (ID r) of None \<Rightarrow> [] | Some args \<Rightarrow> [args]) @ removalCalls rs"
  by (simp add: removalCalls_def)

lemma removalCalls_Nil: "removalCalls [] = []"
  by (simp add: removalCalls_def)

lemma deleteAll_loop_recording:
  "deleteAll_loop lc (recording run) rs d es (w, calls) =
     (fst (deleteAll_loop lc run rs d es w),
      (snd (deleteAll_loop lc run rs d es w), calls @ removalCalls rs))"
proof (induction rs arbitrary: d es w calls)
  case Nil
  show ?case by (simp add: removalCalls_Nil)
next
  case (Cons r rs)
  obtain e w1 where R: "Remove run (Type r) (ID r) w = (e, w1)"
    by (cases "Remove run (Type r) (ID r) w")
  show ?case
    by (cases e) (simp_all add: Remove_recording R Cons.IH removalCalls_Cons)
qed

lemma imagePass_recording:
  "imagePass lc (recording run) rs d es fs (w, calls) =
     (fst (imagePass lc run rs d es fs w),
      (snd (imagePass lc run rs d es fs w), calls @ removalCalls rs))"
proof (induction rs arbitrary: d es fs w calls)
  case Nil
  show ?case by (simp add: removalCalls_Nil)
next
  case (Cons r rs)
  obtain e w1 where R: "Remove run (Type r) (ID r) w = (e, w1)"
    by (cases "Remove run (Type r) (ID r) w")
  show ?case
    by (cases e) (simp_all add: Remove_recording R Cons.IH removalCalls_Cons)
qed

lemma imagePass_failed_subset:
  "set (snd (snd (fst (imagePass lc run rs d es fs w)))) \<subseteq> set fs \<union> set rs"
proof (induction rs arbitrary: d es fs w)
  case Nil
  show ?case by simp
next
  case (Cons r rs)
  obtain e w1 where R: "Remove run (Type r) (ID r) w = (e, w1)"
    by (cases "Remove run (Type r) (ID r) w")
  show ?case
  proof (cases e)
    case None
    with R Cons.IH [of "d + 1" es fs w1] show ?thesis by auto
  next
    case (Some err)
    with R Cons.IH [of "d + 1" es fs w1] Cons.IH [of d es "fs @ [r]" w1]
      Cons.IH [of d "es @ [DisplayName r @ '': '' @ err]" fs w1]
    show ?thesis by auto
  qed
qed

lemma imagePass_Nil: "imagePass lc run [] d es [] w = ((d, es, []), w)"
  by simp

lemma retryLoop_three_passes:
  "retryLoop lc run 0 pending d es w =
     (case imagePass lc run pending d es [] w of ((d1, es1, p1), w1) \<Rightarrow>
      case imagePass lc run p1 d1 es1 [] w1 of ((d2, es2, p2), w2) \<Rightarrow>
        imagePass lc run p2 d2 es2 [] w2)"
proof -
  have last: "retryLoop lc run (Suc (Suc (Suc 0))) p d' es' w' = ((d', es', p), w')"
    for p d' es' w'
    by (subst retryLoop.simps) simp
  have step: "retryLoop lc run a p d' es' w' =
      (case imagePass lc run p d' es' [] w' of ((d1, es1, p1), w1) \<Rightarrow>
         retryLoop lc run (Suc a) p1 d1 es1 w1)" if "a < 3" for a p d' es' w'
  proof (cases p)
    case Nil
    have "retryLoop lc run a [] d' es' w' = ((d', es', []), w')"
      by (subst retryLoop.simps) simp
    moreover have "retryLoop lc run (Suc a) [] d' es' w' = ((d', es', []), w')"
      by (subst retryLoop.simps) simp
    ultimately show ?thesis using Nil by simp
  next
    case (Cons x xs)
    with that show ?thesis by (subst retryLoop.simps) simp
  qed
  show ?thesis
    by (simp add: step last case_prod_beta)
qed

lemma removalCalls_kind:
  "removalCalls (filter (\<lambda>r. Type r = TypeContainer) rs)
     = map (\<lambda>r. [''rm'', ID r]) (filter (\<lambda>r. Type r = TypeContainer) rs)"
  "removalCalls (filter (\<lambda>r. Type r = TypeNetwork) rs)
     = map (\<lambda>r. [''network'', ''rm'', ID r]) (filter (\<lambda>r. Type r = TypeNetwork) rs)"
  "removalCalls (filter (\<lambda>r. Type r = TypeVolume) rs)
     = map (\<lambda>r. [''volume'', ''rm'', ID r]) (filter (\<lambda>r. Type r = TypeVolume) rs)"
  "removalCalls (filter (\<lambda>r. Type r = TypeImage) rs)
     = map (\<lambda>r. [''rmi'', ID r]) (filter (\<lambda>r. Type r = TypeImage) rs)"
  by (induction rs) (simp_all add: removalCalls_Cons removalCalls_Nil removeArgs_kinds)

lemma removalCalls_images:
  "\<forall>r\<in>set rs. Type r = TypeImage \<Longrightarrow> removalCalls rs = map (\<lambda>r. [''rmi'', ID r]) rs"
  by (induction rs) (simp_all add: removalCalls_Cons removalCalls_Nil removeArgs_kinds)

lemma removalCalls_subset:
  "set ps \<subseteq> set rs \<Longrightarrow> set (removalCalls ps) \<subseteq> set (removalCalls rs)"
  unfolding removalCalls_def by auto

lemma deleteImagesWithRetry_recording:
  "\<exists>retries.
     deleteImagesWithRetry lc (recording run) rs (w, calls) =
       (fst (deleteImagesWithRetry lc run rs w),
        (snd (deleteImagesWithRetry lc run rs w), calls @ removalCalls rs @ retries))
     \<and> set retries \<subseteq> set (removalCalls rs)"
proof -
  obtain d1 e1 p1 w1 where P1: "imagePass lc run rs 0 [] [] w = ((d1, e1, p1), w1)"
    by (metis surj_pair)
  obtain d2 e2 p2 w2 where P2: "imagePass lc run p1 d1 e1 [] w1 = ((d2, e2, p2), w2)"
    by (metis surj_pair)
  obtain d3 e3 p3 w3 where P3: "imagePass lc run p2 d2 e2 [] w2 = ((d3, e3, p3), w3)"
    by (metis surj_pair)
  have R1: "imagePass lc (recording run) rs 0 [] [] (w, calls)
      = ((d1, e1, p1), (w1, calls @ removalCalls rs))"
    by (simp add: imagePass_recording P1)
  have R2: "imagePass lc (recording run) p1 d1 e1 [] (w1, calls @ removalCalls rs)
      = ((d2, e2, p2), (w2, calls @ removalCalls rs @ removalCalls p1))"
    by (simp add: imagePass_recording P2)
  have R3: "imagePass lc (recording run) p2 d2 e2 []
        (w2, calls @ removalCalls rs @ removalCalls p1)
      = ((d3, e3, p3), (w3, calls @ removalCalls rs @ removalCalls p1 @ removalCalls p2))"
    by (simp add: imagePass_recording P3)
  have A: "deleteImagesWithRetry lc run rs w =
      ((d3, e3 @ map (\<lambda>r. DisplayName r @ '': has dependent images (not deleted)'') p3), w3)"
    unfolding deleteImagesWithRetry_def retryLoop_three_passes by (simp add: P1 P2 P3)
  have B: "deleteImagesWithRetry lc (recording run) rs (w, calls) =
      ((d3, e3 @ map (\<lambda>r. DisplayName r @ '': has dependent images (not deleted)'') p3),
       (w3, calls @ removalCalls rs @ removalCalls p1 @ removalCalls p2))"
    unfolding deleteImagesWithRetry_def retryLoop_three_passes by (simp add: R1 R2 R3)
  have s1: "set p1 \<subseteq> set rs"
    using imagePass_failed_subset [of lc run rs 0 "[]" "[]" w] by (simp add: P1)
  have s2: "set p2 \<subseteq> set p1"
    using imagePass_failed_subset [of lc run p1 d1 e1 "[]" w1] by (simp add: P2)
  have "set (removalCalls p1 @ removalCalls p2) \<subseteq> set (removalCalls rs)"
    using removalCalls_subset [OF s1] removalCalls_subset [of p2 rs] s1 s2 by auto
  moreover have "deleteImagesWithRetry lc (recording run) rs (w, calls) =
       (fst (deleteImagesWithRetry lc run rs w),
        (snd (deleteImagesWithRetry lc run rs w),
         calls @ removalCalls rs @ (removalCalls p1 @ removalCalls p2)))"
    by (simp add: A B)
  ultimately show ?thesis by blast
qed

lemma deleteAll_recording:
  "deleteAll lc (recording run) rs (w, calls) =
     (fst (deleteAll lc run rs w), (snd (deleteAll lc run rs w), calls @ removalCalls rs))"
  unfolding deleteAll_def by (rule deleteAll_loop_recording)

text \<open>
  Claim C2: whatever the selection and the runtime, the commands that \<open>DeleteResources\<close>
  issues are, in this order: the removals of the selected containers, those of the
  networks, those of the volumes, and then those of the images (each image once, in a
  first pass, followed by the retries, which are image removals too).  Recording the
  commands does not change the result.
\<close>

theorem DeleteResources_order:
  "\<exists>retries.
     DeleteResources lc (recording run) resources (w, calls) =
       (fst (DeleteResources lc run resources w),
        (snd (DeleteResources lc run resources w),
         calls
         @ map (\<lambda>r. [''rm'', ID r]) (filter (\<lambda>r. Type r = TypeContainer) resources)
         @ map (\<lambda>r. [''network'', ''rm'', ID r]) (filter (\<lambda>r. Type r = TypeNetwork) resources)
         @ map (\<lambda>r. [''volume'', ''rm'', ID r]) (filter (\<lambda>r. Type r = TypeVolume) resources)
         @ map (\<lambda>r. [''rmi'', ID r]) (filter (\<lambda>r. Type r = TypeImage) resources)
         @ retries))
     \<and> set retries
         \<subseteq> set (map (\<lambda>r. [''rmi'', ID r]) (filter (\<lambda>r. Type r = TypeImage) resources))"
proof -
  define cs where "cs = filter (\<lambda>r. Type r = TypeContainer) resources"
  define ns where "ns = filter (\<lambda>r. Type r = TypeNetwork) resources"
  define vs where "vs = filter (\<lambda>r. Type r = TypeVolume) resources"
  define im where "im = filter (\<lambda>r. Type r = TypeImage) resources"
  obtain r1 w1 where 1: "deleteAll lc run cs w = (r1, w1)" by (metis surj_pair)
  obtain r2 w2 where 2: "deleteAll lc run ns w1 = (r2, w2)" by (metis surj_pair)
  obtain r3 w3 where 3: "deleteAll lc run vs w2 = (r3, w3)" by (metis surj_pair)
  obtain r4 w4 where 4: "deleteImagesWithRetry lc run im w3 = (r4, w4)" by (metis surj_pair)
  define k3 where "k3 = calls @ removalCalls cs @ removalCalls ns @ removalCalls vs"
  obtain retries where
    5: "deleteImagesWithRetry lc (recording run) im (w3, k3)
         = (r4, (w4, k3 @ removalCalls im @ retries))"
    and sub: "set retries \<subseteq> set (removalCalls im)"
    using deleteImagesWithRetry_recording [of lc run im w3 k3] by (auto simp: 4)
  have A: "DeleteResources lc run resources w =
      ((fst r1 + fst r2 + fst r3 + fst r4, snd r1 @ snd r2 @ snd r3 @ snd r4), w4)"
    unfolding DeleteResources_def cs_def [symmetric] ns_def [symmetric] vs_def [symmetric]
      im_def [symmetric]
    by (simp add: 1 2 3 4 case_prod_beta)
  have B: "DeleteResources lc (recording run) resources (w, calls) =
      ((fst r1 + fst r2 + fst r3 + fst r4, snd r1 @ snd r2 @ snd r3 @ snd r4),
       (w4, k3 @ removalCalls im @ retries))"
    unfolding DeleteResources_def cs_def [symmetric] ns_def [symmetric] vs_def [symmetric]
      im_def [symmetric]
    by (simp add: deleteAll_recording 1 2 3 5 [unfolded k3_def] k3_def case_prod_beta)
  have C: "removalCalls cs = map (\<lambda>r. [''rm'', ID r]) cs"
    "removalCalls ns = map (\<lambda>r. [''network'', ''rm'', ID r]) ns"
    "removalCalls vs = map (\<lambda>r. [''volume'', ''rm'', ID r]) vs"
    "removalCalls im = map (\<lambda>r. [''rmi'', ID r]) im"
    unfolding cs_def ns_def vs_def im_def by (rule removalCalls_kind)+
  have "DeleteResources lc (recording run) resources (w, calls) =
       (fst (DeleteResources lc run resources w),
        (snd (DeleteResources lc run resources w),
         calls @ map (\<lambda>r. [''rm'', ID r]) cs @ map (\<lambda>r. [''network'', ''rm'', ID r]) ns
         @ map (\<lambda>r. [''volume'', ''rm'', ID r]) vs @ map (\<lambda>r. [''rmi'', ID r]) im @ retries))"
    by (simp add: A B k3_def C)
  moreover have "set retries \<subseteq> set (map (\<lambda>r. [''rmi'', ID r]) im)"
    using sub by (simp only: C)
  ultimately show ?thesis
    unfolding cs_def ns_def vs_def im_def by blast
qed

theorem DeleteResources_order_witness:
  "snd (snd (DeleteResources id (recording scenario_run) [i2, v1, c1, n1] ((), []))) =
     [[''rm'', ''c1''], [''network'', ''rm'', ''n1''], [''volume'', ''rm'', ''v1''],
      [''rmi'', ''i2'']]"
  using DeleteResources_order [of id scenario_run "[i2, v1, c1, n1]" "()" "[]"]
  by (simp add: scenario_simps Remove_recording removeArgs_kinds)

subsection \<open>Resources that are already gone\<close>

lemma already_removed_kinds:
  assumes "t \<in> {TypeContainer, TypeImage, TypeVolume, TypeNetwork}"
    and "(Contains (ToLower lc msg) ''not found'' \<or> Contains (ToLower lc msg) ''no such'')
           \<and> Contains (ToLower lc msg) t
         \<or> t = TypeImage \<and> Contains (ToLower lc msg) ''image not known''"
  shows "isAlreadyRemovedError lc t (Some msg)"
proof -
  have known: "Contains s ''image not known'' \<Longrightarrow> Contains s ''image''" for s
    using Contains_part [of s "[]" "''image''" "'' not known''"] by simp
  from assms(2) show ?thesis
  proof
    assume a: "(Contains (ToLower lc msg) ''not found'' \<or> Contains (ToLower lc msg) ''no such'')
           \<and> Contains (ToLower lc msg) t"
    with assms(1) show ?thesis
      unfolding isAlreadyRemovedError_def
      by (auto simp: Let_def kinds_distinct TypeContainer_def [symmetric]
          TypeImage_def [symmetric] TypeVolume_def [symmetric] TypeNetwork_def [symmetric])
  next
    assume b: "t = TypeImage \<and> Contains (ToLower lc msg) ''image not known''"
    then show ?thesis
      unfolding isAlreadyRemovedError_def using known [of "ToLower lc msg"]
      by (auto simp: Let_def)
  qed
qed

lemma deleteImagesWithRetry_Nil: "deleteImagesWithRetry lc run [] w = ((0, []), w)"
  unfolding deleteImagesWithRetry_def by (subst retryLoop.simps) simp

lemma deleteAll_Nil: "deleteAll lc run [] w = ((0, []), w)"
  unfolding deleteAll_def by simp

text \<open>
  Claim C3: let the removal of a resource of one of the four kinds fail with a message
  that says the resource is gone: the message, lower-cased as the code does before it
  matches, contains \<open>not found\<close> or \<open>no such\<close> together with the name of the kind
  or, for an image, contains \<open>image not known\<close>.  Then the loop of \<open>deleteAll\<close> and
  the pass over the images both go on with the deleted count incremented and the error
  list unchanged, and deleting that resource alone returns one deletion and no error.
\<close>

theorem already_removed_is_success:
  "Type r \<in> {TypeContainer, TypeImage, TypeVolume, TypeNetwork}
   \<and> Remove run (Type r) (ID r) w = (Some msg, w')
   \<and> ((Contains (ToLower lc msg) ''not found'' \<or> Contains (ToLower lc msg) ''no such'')
         \<and> Contains (ToLower lc msg) (Type r)
       \<or> Type r = TypeImage \<and> Contains (ToLower lc msg) ''image not known'')
   \<longrightarrow>
     deleteAll_loop lc run (r # rest) deleted errors w
       = deleteAll_loop lc run rest (deleted + 1) errors w'
   \<and> imagePass lc run (r # rest) deleted errors failed w
       = imagePass lc run rest (deleted + 1) errors failed w'
   \<and> DeleteResources lc run [r] w = ((1, []), w')"
proof (intro impI, elim conjE)
  assume kind: "Type r \<in> {TypeContainer, TypeImage, TypeVolume, TypeNetwork}"
    and R: "Remove run (Type r) (ID r) w = (Some msg, w')"
    and m: "(Contains (ToLower lc msg) ''not found'' \<or> Contains (ToLower lc msg) ''no such'')
         \<and> Contains (ToLower lc msg) (Type r)
       \<or> Type r = TypeImage \<and> Contains (ToLower lc msg) ''image not known''"
  have gone: "isAlreadyRemovedError lc (Type r) (Some msg)"
    using already_removed_kinds [OF kind m] .
  have 1: "deleteAll_loop lc run (r # rest) deleted errors w
       = deleteAll_loop lc run rest (deleted + 1) errors w'"
    by (simp add: R gone)
  have 2: "imagePass lc run (r # rest) deleted errors failed w
       = imagePass lc run rest (deleted + 1) errors failed w'"
    by (simp add: R gone)
  have one: "deleteAll lc run [r] w = ((1, []), w')"
    unfolding deleteAll_def by (simp add: R gone)
  have img: "deleteImagesWithRetry lc run [r] w = ((1, []), w')"
    unfolding deleteImagesWithRetry_def retryLoop_three_passes by (simp add: R gone)
  from kind consider "Type r = TypeContainer" | "Type r = TypeImage" | "Type r = TypeVolume"
    | "Type r = TypeNetwork" by auto
  then have 3: "DeleteResources lc run [r] w = ((1, []), w')"
    by cases
      (simp_all add: DeleteResources_def kinds_distinct one img deleteAll_Nil
        deleteImagesWithRetry_Nil)
  from 1 2 3 show "deleteAll_loop lc run (r # rest) deleted errors w
       = deleteAll_loop lc run rest (deleted + 1) errors w'
   \<and> imagePass lc run (r # rest) deleted errors failed w
       = imagePass lc run rest (deleted + 1) errors failed w'
   \<and> DeleteResources lc run [r] w = ((1, []), w')"
    by simp
qed

lemma gone_Remove: "Remove gone_run TypeContainer ''c1'' w = (Some goneMessage, w)"
  by (simp add: Remove_def removeArgs_kinds gone_run_def)

lemma gone_message:
  "Contains (ToLower lc goneMessage) ''no such''"
  "Contains (ToLower lc goneMessage) TypeContainer"
  by (simp_all add: goneMessage_def ToLower_def isASCII_def lowerASCII_def TypeContainer_def)

theorem already_removed_is_success_witness:
  "DeleteResources id gone_run [c1] () = ((1, []), ())
   \<and> deleteAll_loop id gone_run [c1, c1] 0 [] () = ((2, []), ())"
  using already_removed_is_success [where r = c1 and run = gone_run and w = "()" and w' = "()"
      and msg = goneMessage and lc = id and rest = "[c1]" and deleted = 0 and errors = "[]"]
    already_removed_is_success [where r = c1 and run = gone_run and w = "()" and w' = "()"
      and msg = goneMessage and lc = id and rest = "[]" and deleted = 1 and errors = "[]"]
  by (simp add: c1_def plainResource_fields gone_Remove gone_message)

subsection \<open>The retry protocol for images\<close>

text \<open>
  Claim C4, as the code has it: \<open>deleteImagesWithRetry\<close> is three passes over the
  images still pending (a pass over no image does nothing), and every image pending
  after the third pass yields the error \<open>has dependent images (not deleted)\<close>.  A pass
  attempts every pending image once, in order.  In a pass, a removal that succeeds is
  counted as deleted, and so is a failure that the code classifies as already removed
  (claim C3), which it tests first; a failure that is not of that kind and whose
  lower-cased message contains \<open>dependent\<close>, \<open>has dependent child images\<close> or
  \<open>image is being used\<close> defers the image to the next pass and records no error; every
  remaining failure is recorded at once and the image is not pending any more.  In the
  scenario of the claim the result is two deletions and the single error
  \<open>i1: has dependent images (not deleted)\<close>.
\<close>

theorem image_retry_protocol:
  "deleteImagesWithRetry lc run images w =
     (case imagePass lc run images 0 [] [] w of ((d1, es1, p1), w1) \<Rightarrow>
      case imagePass lc run p1 d1 es1 [] w1 of ((d2, es2, p2), w2) \<Rightarrow>
      case imagePass lc run p2 d2 es2 [] w2 of ((d3, es3, p3), w3) \<Rightarrow>
        ((d3, es3 @ map (\<lambda>r. DisplayName r @ '': has dependent images (not deleted)'') p3),
         w3))
   \<and> ((\<forall>p\<in>set pending. Type p = TypeImage) \<longrightarrow>
        snd (snd (imagePass lc (recording run) pending deleted errors failed (w, calls)))
          = calls @ map (\<lambda>p. [''rmi'', ID p]) pending)
   \<and> (Remove run (Type r) (ID r) w = (None, w') \<longrightarrow>
        imagePass lc run (r # rest) deleted errors failed w
          = imagePass lc run rest (deleted + 1) errors failed w')
   \<and> (Remove run (Type r) (ID r) w = (Some msg, w')
        \<and> isAlreadyRemovedError lc (Type r) (Some msg) \<longrightarrow>
        imagePass lc run (r # rest) deleted errors failed w
          = imagePass lc run rest (deleted + 1) errors failed w')
   \<and> (Remove run (Type r) (ID r) w = (Some msg, w')
        \<and> \<not> isAlreadyRemovedError lc (Type r) (Some msg)
        \<and> (Contains (ToLower lc msg) ''dependent''
            \<or> Contains (ToLower lc msg) ''has dependent child images''
            \<or> Contains (ToLower lc msg) ''image is being used'') \<longrightarrow>
        imagePass lc run (r # rest) deleted errors failed w
          = imagePass lc run rest deleted errors (failed @ [r]) w')
   \<and> (Remove run (Type r) (ID r) w = (Some msg, w')
        \<and> \<not> isAlreadyRemovedError lc (Type r) (Some msg)
        \<and> \<not> Contains (ToLower lc msg) ''dependent''
        \<and> \<not> Contains (ToLower lc msg) ''has dependent child images''
        \<and> \<not> Contains (ToLower lc msg) ''image is being used'' \<longrightarrow>
        imagePass lc run (r # rest) deleted errors failed w
          = imagePass lc run rest deleted (errors @ [DisplayName r @ '': '' @ msg]) failed w')
   \<and> DeleteResources lc scenario_run [c1, i1, i2] ()
        = ((2, [''i1: has dependent images (not deleted)'']), ())"
proof (intro conjI impI)
  show "deleteImagesWithRetry lc run images w =
     (case imagePass lc run images 0 [] [] w of ((d1, es1, p1), w1) \<Rightarrow>
      case imagePass lc run p1 d1 es1 [] w1 of ((d2, es2, p2), w2) \<Rightarrow>
      case imagePass lc run p2 d2 es2 [] w2 of ((d3, es3, p3), w3) \<Rightarrow>
        ((d3, es3 @ map (\<lambda>r. DisplayName r @ '': has dependent images (not deleted)'') p3),
         w3))"
    unfolding deleteImagesWithRetry_def retryLoop_three_passes
    by (simp add: case_prod_beta)
next
  assume "\<forall>p\<in>set pending. Type p = TypeImage"
  then show "snd (snd (imagePass lc (recording run) pending deleted errors failed (w, calls)))
          = calls @ map (\<lambda>p. [''rmi'', ID p]) pending"
    by (simp add: imagePass_recording removalCalls_images)
next
  assume "Remove run (Type r) (ID r) w = (None, w')"
  then show "imagePass lc run (r # rest) deleted errors failed w
          = imagePass lc run rest (deleted + 1) errors failed w'"
    by simp
next
  assume "Remove run (Type r) (ID r) w = (Some msg, w')
        \<and> isAlreadyRemovedError lc (Type r) (Some msg)"
  then show "imagePass lc run (r # rest) deleted errors failed w
          = imagePass lc run rest (deleted + 1) errors failed w'"
    by simp
next
  assume "Remove run (Type r) (ID r) w = (Some msg, w')
        \<and> \<not> isAlreadyRemovedError lc (Type r) (Some msg)
        \<and> (Contains (ToLower lc msg) ''dependent''
            \<or> Contains (ToLower lc msg) ''has dependent child images''
            \<or> Contains (ToLower lc msg) ''image is being used'')"
  then show "imagePass lc run (r # rest) deleted errors failed w
          = imagePass lc run rest deleted errors (failed @ [r]) w'"
    by (auto simp: isDependencyError_def Let_def)
next
  assume "Remove run (Type r) (ID r) w = (Some msg, w')
        \<and> \<not> isAlreadyRemovedError lc (Type r) (Some msg)
        \<and> \<not> Contains (ToLower lc msg) ''dependent''
        \<and> \<not> Contains (ToLower lc msg) ''has dependent child images''
        \<and> \<not> Contains (ToLower lc msg) ''image is being used''"
  then show "imagePass lc run (r # rest) deleted errors failed w
          = imagePass lc run rest deleted (errors @ [DisplayName r @ '': '' @ msg]) failed w'"
    by (simp add: isDependencyError_iff)
next
  show "DeleteResources lc scenario_run [c1, i1, i2] ()
        = ((2, [''i1: has dependent images (not deleted)'']), ())"
    by (simp add: scenario_simps)
qed

theorem image_retry_protocol_witness:
  "deleteImagesWithRetry id scenario_run [i1, i2] ()
     = ((1, [''i1: has dependent images (not deleted)'']), ())
   \<and> imagePass id scenario_run [i1, i2] 0 [] [] () = ((1, [], [i1]), ())
   \<and> imagePass id scenario_run [i1] 1 [] [] () = ((1, [], [i1]), ())
   \<and> snd (snd (imagePass id (recording scenario_run) [i1, i2] 0 [] [] ((), [])))
       = [[''rmi'', ''i1''], [''rmi'', ''i2'']]"
  using image_retry_protocol [where lc = id and run = scenario_run and images = "[i1, i2]"
      and w = "()" and w' = "()" and pending = "[i1, i2]" and deleted = 0 and errors = "[]"
      and failed = "[]" and calls = "[]" and r = i1 and rest = "[i2]"
      and msg = "''has dependent child images''"]
  by (simp add: scenario_simps Remove_recording removeArgs_kinds)

lemma failing_Remove: "Remove (failing_run msg) TypeImage ''i1'' w = (Some msg, w)"
  by (simp add: Remove_def removeArgs_kinds failing_run_def)

lemma failing_messages:
  "isAlreadyRemovedError lc TypeImage (Some bothMessage)"
  "isAlreadyRemovedError lc TypeImage (Some missingMessage)"
  "\<not> isAlreadyRemovedError lc TypeImage (Some upperMessage)"
  "isDependencyError lc (Some upperMessage)"
  by (simp_all add: isAlreadyRemovedError_def isDependencyError_def ToLower_def isASCII_def
      lowerASCII_def bothMessage_def missingMessage_def upperMessage_def TypeImage_def)

lemma failing_literal:
  "Contains bothMessage ''dependent''"
  "\<not> Contains upperMessage ''dependent''"
  "\<not> Contains upperMessage ''has dependent child images''"
  "\<not> Contains upperMessage ''image is being used''"
  "\<not> Contains missingMessage ''dependent''"
  "\<not> Contains missingMessage ''has dependent child images''"
  "\<not> Contains missingMessage ''image is being used''"
  by (simp_all add: bothMessage_def missingMessage_def upperMessage_def)

text \<open>
  Claim C4 as stated fails in three ways.  A failure whose message contains
  \<open>dependent\<close> but also says that the image is gone is counted as deleted after a
  single attempt, not deferred.  A failure whose message contains none of the three
  texts as they are written, but one of them in capital letters, is deferred in all
  three passes and only yields the final error.  And a failure whose message only says
  that the image is gone is a failure with none of the three texts, yet no error is
  recorded for it: it is counted as deleted.
\<close>

theorem image_retry_protocol_counterexample:
  "Contains bothMessage ''dependent''
   \<and> DeleteResources id (recording (failing_run bothMessage)) [i1] ((), [])
       = ((1, []), ((), [[''rmi'', ''i1'']]))
   \<and> \<not> Contains upperMessage ''dependent''
   \<and> \<not> Contains upperMessage ''has dependent child images''
   \<and> \<not> Contains upperMessage ''image is being used''
   \<and> DeleteResources id (recording (failing_run upperMessage)) [i1] ((), [])
       = ((0, [''i1: has dependent images (not deleted)'']),
          ((), [[''rmi'', ''i1''], [''rmi'', ''i1''], [''rmi'', ''i1'']]))
   \<and> \<not> Contains missingMessage ''dependent''
   \<and> \<not> Contains missingMessage ''has dependent child images''
   \<and> \<not> Contains missingMessage ''image is being used''
   \<and> DeleteResources id (failing_run missingMessage) [i1] () = ((1, []), ())"
  by (simp add: failing_literal i1_def plainResource_fields kinds_distinct failing_Remove
      failing_messages DeleteResources_def deleteAll_def deleteImagesWithRetry_def
      retryLoop.simps Remove_recording removeArgs_kinds)

subsection \<open>The age filter\<close>

lemma Since_less_iff:
  "0 < sint (d :: 64 word) \<Longrightarrow> Since now t < sint d \<longleftrightarrow> now - t < sint d"
proof -
  assume pos: "0 < sint d"
  have "sint d \<le> 2 ^ 63 - 1"
    using sint_lt [of d] by simp
  with pos show ?thesis
    unfolding Since_def maxDuration_def minDuration_def by auto
qed

lemma notOldEnough_iff:
  "0 < sint (OlderThan cfg) \<Longrightarrow>
     notOldEnough cfg now t \<longleftrightarrow> \<not> IsZero t \<and> now - t < sint (OlderThan cfg)"
  unfolding notOldEnough_def by (simp add: Since_less_iff)

lemma categorize_ignores_config:
  "categorizeContainer c labels cfg = categorizeContainer c labels cfg'"
  "categorizeImage img used labels cfg = categorizeImage img used labels cfg'"
  "categorizeVolume vol used labels cfg = categorizeVolume vol used labels cfg'"
  "categorizeNetwork net used labels cfg = categorizeNetwork net used labels cfg'"
  by (simp_all add: categorizeContainer_def categorizeImage_def categorizeVolume_def
      categorizeNetwork_def)

lemma analyzeLoop_map_filter:
  "analyzeLoop body clock i xs = List.map_filter (\<lambda>(j, x). body (clock j) x) (enumerate i xs)"
  by (induction xs arbitrary: i) (simp_all add: map_filter_simps split: option.splits)

lemma inspectLoop_eq:
  "inspectLoop trim cfg images imageIDs inspectNeeded =
     (imageIDs @ filter (\<lambda>ident. ident \<noteq> [])
                  (map (\<lambda>img. NormalizeImageID trim (Image_ID img)) images),
      inspectNeeded @ map (\<lambda>img. NormalizeImageID trim (Image_ID img))
                        (filter (\<lambda>img. NormalizeImageID trim (Image_ID img) \<noteq> []
                                         \<and> needsInspect cfg img) images))"
  by (induction images arbitrary: imageIDs inspectNeeded) simp_all

lemma analyzeContainer_body:
  assumes "0 < sint (OlderThan cfg)"
  shows "analyzeContainer cfg byID oneC now c =
     (case containerDetail byID oneC c of
        (createdAt, labels) \<Rightarrow>
          if \<not> IsZero createdAt \<and> now - createdAt < sint (OlderThan cfg) then None
          else if Exited cfg \<and> Container_State c \<noteq> ''exited'' then None
          else Some \<lparr> c_container = c,
                      c_category = fst (categorizeContainer c (Some labels) noConfig),
                      c_labels = Some labels,
                      c_createdAt = createdAt,
                      c_composeProject = ComposeProjectFromLabels (Some labels),
                      c_protectReason = snd (categorizeContainer c (Some labels) noConfig) \<rparr>)"
  unfolding analyzeContainer_def
  by (simp add: notOldEnough_iff [OF assms] case_prod_beta
      categorize_ignores_config(1) [of _ _ cfg noConfig])

lemma analyzeImage_body:
  assumes "0 < sint (OlderThan cfg)"
  shows "analyzeImage trim parseTime cfg inUse needed byID oneI now img =
     (case imageDetail trim parseTime needed byID oneI img of
        (sz, labels, createdAt) \<Rightarrow>
          if \<not> IsZero createdAt \<and> now - createdAt < sint (OlderThan cfg) then None
          else if MinSize cfg > 0 \<and> sz < MinSize cfg then None
          else if Dangling cfg \<and> \<not> isDangling img then None
          else if NoDangling cfg \<and> isDangling img then None
          else Some \<lparr> i_image = img,
                      i_category =
                        fst (categorizeImage img
                               (inUse (Image_Repository img @ '':'' @ Image_Tag img)
                                \<or> inUse (NormalizeImageID trim (Image_ID img))) labels noConfig),
                      i_inUse = (inUse (Image_Repository img @ '':'' @ Image_Tag img)
                                 \<or> inUse (NormalizeImageID trim (Image_ID img))),
                      i_size = sz,
                      i_labels = labels,
                      i_createdAt = createdAt,
                      i_protectReason =
                        snd (categorizeImage img
                               (inUse (Image_Repository img @ '':'' @ Image_Tag img)
                                \<or> inUse (NormalizeImageID trim (Image_ID img))) labels noConfig)
                    \<rparr>)"
  unfolding analyzeImage_def
  by (simp add: notOldEnough_iff [OF assms] case_prod_beta Let_def
      categorize_ignores_config(2) [of _ _ _ cfg noConfig])

lemma analyzeVolume_body:
  assumes "0 < sint (OlderThan cfg)"
  shows "analyzeVolume parseTime cfg inUse byName oneV now vol =
     (case volumeDetail parseTime byName oneV vol of
        (labels, createdAt, composeProject) \<Rightarrow>
          if \<not> IsZero createdAt \<and> now - createdAt < sint (OlderThan cfg) then None
          else if Anonymous cfg \<and> \<not> IsAnonymousVolume (Volume_Name vol) then None
          else Some \<lparr> v_volume = vol,
                      v_category =
                        fst (categorizeVolume vol (inUse (Volume_Name vol)) labels noConfig),
                      v_inUse = inUse (Volume_Name vol),
                      v_labels = labels,
                      v_createdAt = createdAt,
                      v_composeProject = composeProject,
                      v_protectReason =
                        snd (categorizeVolume vol (inUse (Volume_Name vol)) labels noConfig) \<rparr>)"
  unfolding analyzeVolume_def
  by (simp add: notOldEnough_iff [OF assms] case_prod_beta Let_def
      categorize_ignores_config(3) [of _ _ _ cfg noConfig])

lemma analyzeNetwork_body:
  assumes "0 < sint (OlderThan cfg)"
  shows "analyzeNetwork parseTime cfg inUse oneN now net =
     (case networkDetail parseTime oneN net of
        (labels, createdAt, composeProject) \<Rightarrow>
          if \<not> IsZero createdAt \<and> now - createdAt < sint (OlderThan cfg) then None
          else Some \<lparr> n_network = net,
                      n_category =
                        fst (categorizeNetwork net (inUse (Network_Name net)) labels noConfig),
                      n_inUse = inUse (Network_Name net),
                      n_labels = labels,
                      n_createdAt = createdAt,
                      n_composeProject = composeProject,
                      n_protectReason =
                        snd (categorizeNetwork net (inUse (Network_Name net)) labels noConfig)
                    \<rparr>)"
  unfolding analyzeNetwork_def
  by (simp add: notOldEnough_iff [OF assms] case_prod_beta Let_def
      categorize_ignores_config(4) [of _ _ _ cfg noConfig])

lemma AnalyzeContainers_output:
  "AnalyzeContainersWithConfig (Inr containers) batchC oneC clock cfg =
     Inr (List.map_filter
            (\<lambda>(j, c). analyzeContainer cfg
                (case batchC (filter (\<lambda>ident. ident \<noteq> []) (map Container_ID containers)) of
                   Inl err \<Rightarrow> Map.empty
                 | Inr m \<Rightarrow> m) oneC (clock j) c)
            (enumerate 0 containers))"
  unfolding AnalyzeContainersWithConfig_def by (simp add: analyzeLoop_map_filter Let_def)

lemma AnalyzeVolumes_output:
  "AnalyzeVolumesWithConfig parseTime (Inr volumes) batchV usedV oneV clock cfg =
     Inr (List.map_filter
            (\<lambda>(j, vol). analyzeVolume parseTime cfg
                (case usedV of Inl err \<Rightarrow> (\<lambda>key. False) | Inr m \<Rightarrow> m)
                (case batchV (filter (\<lambda>name. name \<noteq> []) (map Volume_Name volumes)) of
                   Inl err \<Rightarrow> Map.empty
                 | Inr m \<Rightarrow> m) oneV (clock j) vol)
            (enumerate 0 volumes))"
  unfolding AnalyzeVolumesWithConfig_def by (simp add: analyzeLoop_map_filter Let_def)

lemma AnalyzeNetworks_output:
  "AnalyzeNetworksWithConfig parseTime (Inr networks) usedN oneN clock cfg =
     Inr (List.map_filter
            (\<lambda>(j, net). analyzeNetwork parseTime cfg
                (case usedN of Inl err \<Rightarrow> (\<lambda>key. False) | Inr m \<Rightarrow> m) oneN (clock j) net)
            (enumerate 0 networks))"
  unfolding AnalyzeNetworksWithConfig_def by (simp add: analyzeLoop_map_filter Let_def)

lemma AnalyzeImages_output:
  "AnalyzeImagesWithConfig trim parseTime (Inr images) usedI batchI oneI clock cfg =
     (let needed = (\<lambda>ident. ident \<noteq> [] \<and>
                      (\<exists>other\<in>set images. NormalizeImageID trim (Image_ID other) = ident
                         \<and> needsInspect cfg other));
          imageIDs = filter (\<lambda>ident. ident \<noteq> [])
                       (map (\<lambda>img. NormalizeImageID trim (Image_ID img)) images);
          byID = (if \<exists>ident\<in>set imageIDs. needed ident
                  then (case batchI (filter needed imageIDs) of
                          Inr m \<Rightarrow> m
                        | Inl err \<Rightarrow> Map.empty)
                  else Map.empty)
      in Inr (List.map_filter
                (\<lambda>(j, img). analyzeImage trim parseTime cfg
                    (case usedI of Inl err \<Rightarrow> (\<lambda>key. False) | Inr m \<Rightarrow> m)
                    needed byID oneI (clock j) img)
                (enumerate 0 images)))"
proof -
  let ?norm = "\<lambda>img. NormalizeImageID trim (Image_ID img)"
  let ?keys = "map ?norm (filter (\<lambda>img. ?norm img \<noteq> [] \<and> needsInspect cfg img) images)"
  let ?needed = "\<lambda>ident. ident \<noteq> [] \<and>
      (\<exists>other\<in>set images. ?norm other = ident \<and> needsInspect cfg other)"
  have fn: "(\<lambda>ident. ident \<in> set ?keys) = ?needed"
    by (rule ext) auto
  have nonempty: "0 < length ?keys \<longleftrightarrow>
      (\<exists>ident\<in>set (filter (\<lambda>ident. ident \<noteq> []) (map ?norm images)). ?needed ident)"
    by (auto simp: filter_empty_conv) metis
  show ?thesis
    unfolding AnalyzeImagesWithConfig_def
    by (simp only: sum.case Let_def inspectLoop_eq append_Nil prod.case analyzeLoop_map_filter
        nonempty fn)
qed

lemma needsInspect_threshold:
  "0 < sint (OlderThan cfg) \<Longrightarrow>
     needsInspect cfg img \<longleftrightarrow>
       needsInspect (cfg\<lparr>OlderThan := 0\<rparr>) img \<or> \<not> Image_HasCreatedAt img"
  unfolding needsInspect_def by auto

text \<open>
  Claim C8, as the code has it.  Let a minimum age be configured.  The body of the loop
  of each analyzer leaves a listed resource out exactly when its creation instant, as
  the analyzer determined it, is known (not zero) and \<open>now - createdAt\<close> is below the
  threshold, or when another filter of the configuration leaves it out (exited-only
  for containers; minimum size, dangling-only and no-dangling for images;
  anonymous-only for volumes); a resource whose creation instant is unknown is never
  left out by the age test.  Otherwise the body produces the record, whose category is
  the categorization of its own listing entry, in-use flag and labels; the age test
  does not enter it.  The output of an analyzer is, in the order of the listing, what
  the body produces for each listed resource.  For images the creation instant, the
  labels and the size come from the inspection of the image where there is one, and
  with a minimum age configured the analyzer also inspects every image with a
  non-empty identifier whose listing has no creation instant.
\<close>

theorem age_filter:
  "0 < sint (OlderThan cfg) \<longrightarrow>
     analyzeContainer cfg byID oneC now c =
       (case containerDetail byID oneC c of
          (createdAt, labels) \<Rightarrow>
            if \<not> IsZero createdAt \<and> now - createdAt < sint (OlderThan cfg) then None
            else if Exited cfg \<and> Container_State c \<noteq> ''exited'' then None
            else Some \<lparr> c_container = c,
                        c_category = fst (categorizeContainer c (Some labels) noConfig),
                        c_labels = Some labels,
                        c_createdAt = createdAt,
                        c_composeProject = ComposeProjectFromLabels (Some labels),
                        c_protectReason = snd (categorizeContainer c (Some labels) noConfig) \<rparr>)
   \<and> analyzeImage trim parseTime cfg inUse needed byIDi oneI now img =
       (case imageDetail trim parseTime needed byIDi oneI img of
          (sz, labels, createdAt) \<Rightarrow>
            if \<not> IsZero createdAt \<and> now - createdAt < sint (OlderThan cfg) then None
            else if MinSize cfg > 0 \<and> sz < MinSize cfg then None
            else if Dangling cfg \<and> \<not> isDangling img then None
            else if NoDangling cfg \<and> isDangling img then None
            else Some \<lparr> i_image = img,
                        i_category =
                          fst (categorizeImage img
                                 (inUse (Image_Repository img @ '':'' @ Image_Tag img)
                                  \<or> inUse (NormalizeImageID trim (Image_ID img))) labels noConfig),
                        i_inUse = (inUse (Image_Repository img @ '':'' @ Image_Tag img)
                                   \<or> inUse (NormalizeImageID trim (Image_ID img))),
                        i_size = sz,
                        i_labels = labels,
                        i_createdAt = createdAt,
                        i_protectReason =
                          snd (categorizeImage img
                                 (inUse (Image_Repository img @ '':'' @ Image_Tag img)
                                  \<or> inUse (NormalizeImageID trim (Image_ID img))) labels noConfig)
                      \<rparr>)
   \<and> analyzeVolume parseTime cfg inUse byName oneV now vol =
       (case volumeDetail parseTime byName oneV vol of
          (labels, createdAt, composeProject) \<Rightarrow>
            if \<not> IsZero createdAt \<and> now - createdAt < sint (OlderThan cfg) then None
            else if Anonymous cfg \<and> \<not> IsAnonymousVolume (Volume_Name vol) then None
            else Some \<lparr> v_volume = vol,
                        v_category =
                          fst (categorizeVolume vol (inUse (Volume_Name vol)) labels noConfig),
                        v_inUse = inUse (Volume_Name vol),
                        v_labels = labels,
                        v_createdAt = createdAt,
                        v_composeProject = composeProject,
                        v_protectReason =
                          snd (categorizeVolume vol (inUse (Volume_Name vol)) labels noConfig)
                      \<rparr>)
   \<and> analyzeNetwork parseTime cfg inUse oneN now net =
       (case networkDetail parseTime oneN net of
          (labels, createdAt, composeProject) \<Rightarrow>
            if \<not> IsZero createdAt \<and> now - createdAt < sint (OlderThan cfg) then None
            else Some \<lparr> n_network = net,
                        n_category =
                          fst (categorizeNetwork net (inUse (Network_Name net)) labels noConfig),
                        n_inUse = inUse (Network_Name net),
                        n_labels = labels,
                        n_createdAt = createdAt,
                        n_composeProject = composeProject,
                        n_protectReason =
                          snd (categorizeNetwork net (inUse (Network_Name net)) labels noConfig)
                      \<rparr>)
   \<and> AnalyzeContainersWithConfig (Inr containers) batchC oneC clock cfg =
       Inr (List.map_filter
              (\<lambda>(j, c). analyzeContainer cfg
                  (case batchC (filter (\<lambda>ident. ident \<noteq> []) (map Container_ID containers)) of
                     Inl err \<Rightarrow> Map.empty
                   | Inr m \<Rightarrow> m) oneC (clock j) c)
              (enumerate 0 containers))
   \<and> AnalyzeImagesWithConfig trim parseTime (Inr images) usedI batchI oneI clock cfg =
       (let inspectNeeded = (\<lambda>ident. ident \<noteq> [] \<and>
                        (\<exists>other\<in>set images. NormalizeImageID trim (Image_ID other) = ident
                           \<and> needsInspect cfg other));
            imageIDs = filter (\<lambda>ident. ident \<noteq> [])
                         (map (\<lambda>img. NormalizeImageID trim (Image_ID img)) images);
            inspectByID = (if \<exists>ident\<in>set imageIDs. inspectNeeded ident
                    then (case batchI (filter inspectNeeded imageIDs) of
                            Inr m \<Rightarrow> m
                          | Inl err \<Rightarrow> Map.empty)
                    else Map.empty)
        in Inr (List.map_filter
                  (\<lambda>(j, img). analyzeImage trim parseTime cfg
                      (case usedI of Inl err \<Rightarrow> (\<lambda>key. False) | Inr m \<Rightarrow> m)
                      inspectNeeded inspectByID oneI (clock j) img)
                  (enumerate 0 images)))
   \<and> (needsInspect cfg img \<longleftrightarrow>
        needsInspect (cfg\<lparr>OlderThan := 0\<rparr>) img \<or> \<not> Image_HasCreatedAt img)
   \<and> AnalyzeVolumesWithConfig parseTime (Inr volumes) batchV usedV oneV clock cfg =
       Inr (List.map_filter
              (\<lambda>(j, vol). analyzeVolume parseTime cfg
                  (case usedV of Inl err \<Rightarrow> (\<lambda>key. False) | Inr m \<Rightarrow> m)
                  (case batchV (filter (\<lambda>name. name \<noteq> []) (map Volume_Name volumes)) of
                     Inl err \<Rightarrow> Map.empty
                   | Inr m \<Rightarrow> m) oneV (clock j) vol)
              (enumerate 0 volumes))
   \<and> AnalyzeNetworksWithConfig parseTime (Inr networks) usedN oneN clock cfg =
       Inr (List.map_filter
              (\<lambda>(j, net). analyzeNetwork parseTime cfg
                  (case usedN of Inl err \<Rightarrow> (\<lambda>key. False) | Inr m \<Rightarrow> m) oneN (clock j) net)
              (enumerate 0 networks))"
  by (intro impI conjI)
    (rule analyzeContainer_body analyzeImage_body analyzeVolume_body analyzeNetwork_body
       AnalyzeContainers_output AnalyzeImages_output AnalyzeVolumes_output
       AnalyzeNetworks_output needsInspect_threshold; assumption?)+

lemmas analyzer_simps =
  AnalyzeContainersWithConfig_def AnalyzeImagesWithConfig_def AnalyzeVolumesWithConfig_def
  AnalyzeNetworksWithConfig_def analyzeContainer_def analyzeImage_def analyzeVolume_def
  analyzeNetwork_def containerDetail_def imageDetail_def volumeDetail_def networkDetail_def
  mergeImageInspect_def notOldEnough_def Since_def maxDuration_def minDuration_def IsZero_def
  categorizeContainer_def categorizeImage_def categorizeVolume_def categorizeNetwork_def
  index_def entries_def needsInspect_def NormalizeImageID_def TrimPrefix_def isDangling_def
  ComposeProjectFromLabels_def SystemNetworks_def Let_def
  ageConfig_def ageExitedConfig_def noConfig_def createdAt950_def inspectFails_def
  exitedContainer_def undatedContainer_def runningContainer_def danglingImage_def oldImage_def
  youngImage_def labelledImage_def labelledInspect_def parseStub_def namedVolume_def
  anonymousVolume_def inspectNamedVolume_def customNetwork_def inspectCustomNetwork_def
  protectLabels_def LabelProtect_def

lemma anonymous_lowerHexName: "IsAnonymousVolume lowerHexName"
  by (simp add: lowerHexName_def IsAnonymousVolume_def isLowerHexDigit_def)

lemma lowerHexName_neq: "lowerHexName \<noteq> ''data-01''" "lowerHexName \<noteq> []"
  by (simp_all add: lowerHexName_def)

theorem age_filter_witness:
  "(case AnalyzeContainersWithConfig (Inr [exitedContainer, undatedContainer])
           (\<lambda>ids. Inr createdAt950) inspectFails (\<lambda>i. 1000) ageConfig of
      Inl err \<Rightarrow> []
    | Inr rs \<Rightarrow> map (\<lambda>r. (Container_ID (c_container r), c_category r, c_createdAt r)) rs)
     = [(''c2'', CategorySuggested, 0)]
   \<and> (case AnalyzeImagesWithConfig id parseStub (Inr [youngImage, oldImage])
             (Inl ''unavailable'') (\<lambda>ids. Inl ''unavailable'') inspectFails (\<lambda>i. 1000)
             ageConfig of
        Inl err \<Rightarrow> []
      | Inr rs \<Rightarrow> map (\<lambda>r. (Image_ID (i_image r), i_category r, i_createdAt r)) rs)
     = [(''sha256:0a1b2c'', CategorySuggested, 500)]
   \<and> (case AnalyzeVolumesWithConfig parseStub (Inr [namedVolume, anonymousVolume])
             (\<lambda>names. Inl ''unavailable'') (Inl ''unavailable'') inspectNamedVolume
             (\<lambda>i. 1000) ageConfig of
        Inl err \<Rightarrow> []
      | Inr rs \<Rightarrow> map (\<lambda>r. (Volume_Name (v_volume r), v_category r, v_createdAt r)) rs)
     = [(lowerHexName, CategorySuggested, 0)]
   \<and> (case AnalyzeNetworksWithConfig parseStub (Inr [customNetwork]) (Inl ''unavailable'')
             inspectCustomNetwork (\<lambda>i. 1000) ageConfig of
        Inl err \<Rightarrow> []
      | Inr rs \<Rightarrow> map (\<lambda>r. (Network_ID (n_network r), n_category r, n_createdAt r)) rs)
     = [(''n1'', CategorySuggested, 500)]
   \<and> AnalyzeNetworksWithConfig parseStub (Inr [customNetwork]) (Inl ''unavailable'')
        inspectCustomNetwork (\<lambda>i. 550) ageConfig = Inr []"
proof -
  have pos: "0 < sint (OlderThan ageConfig)"
    by (simp add: ageConfig_def noConfig_def)
  note t = age_filter [THEN mp, OF pos]
  note c = t [THEN conjunct2, THEN conjunct2, THEN conjunct2, THEN conjunct2, THEN conjunct1]
  have 1: "AnalyzeContainersWithConfig (Inr [exitedContainer, undatedContainer])
           (\<lambda>ids. Inr createdAt950) inspectFails (\<lambda>i. 1000) ageConfig
      = Inr [\<lparr> c_container = undatedContainer, c_category = CategorySuggested,
               c_labels = Some Map.empty, c_createdAt = 0, c_composeProject = [],
               c_protectReason = [] \<rparr>]"
    by (subst c) (simp add: analyzer_simps map_filter_simps enumerate_eq_zip)
  show ?thesis
    using 1 by (simp add: analyzer_simps anonymous_lowerHexName lowerHexName_neq)
qed

text \<open>
  Claim C8 as stated fails in two ways.  With a minimum age and the exited-only filter
  configured, a running container whose creation instant is unknown is left out of the
  output.  And for an image whose listing carries the protect label but no creation
  instant, configuring a minimum age makes the analyzer inspect it and take the labels
  of the inspection: its category is \<open>suggested\<close> with the threshold and \<open>protected\<close>
  without.
\<close>

theorem age_filter_counterexample:
  "fst (containerDetail Map.empty inspectFails runningContainer) = 0
   \<and> AnalyzeContainersWithConfig (Inr [runningContainer]) (\<lambda>ids. Inl ''unavailable'')
        inspectFails (\<lambda>i. 1000) ageExitedConfig = Inr []
   \<and> (case AnalyzeImagesWithConfig id parseStub (Inr [labelledImage]) (Inl ''unavailable'')
             (\<lambda>ids. Inr labelledInspect) inspectFails (\<lambda>i. 1000) ageConfig of
        Inl err \<Rightarrow> []
      | Inr rs \<Rightarrow> map i_category rs) = [CategorySuggested]
   \<and> (case AnalyzeImagesWithConfig id parseStub (Inr [labelledImage]) (Inl ''unavailable'')
             (\<lambda>ids. Inr labelledInspect) inspectFails (\<lambda>i. 1000) noConfig of
        Inl err \<Rightarrow> []
      | Inr rs \<Rightarrow> map i_category rs) = [CategoryProtected]"
  by (simp add: analyzer_simps)

subsection \<open>Batch inspection\<close>

lemma find_snoc:
  "find P (xs @ [x]) = (case find P xs of Some y \<Rightarrow> Some y | None \<Rightarrow> if P x then Some x else None)"
  by (induction xs) auto

lemma storeInspected_empty_key: "storeInspected prep key result inspected [] = result []"
  by (induction inspected arbitrary: result) auto

lemma storeInspected_lookup:
  "k \<noteq> [] \<Longrightarrow>
     storeInspected prep key result inspected k =
       (case find (\<lambda>item. key (prep item) = k) (rev inspected) of
          Some item \<Rightarrow> Some (prep item)
        | None \<Rightarrow> result k)"
proof (induction inspected arbitrary: result)
  case Nil
  show ?case by simp
next
  case (Cons item inspected)
  show ?case
    using Cons.prems
    by (auto simp: Cons.IH [OF Cons.prems] find_snoc split: option.splits)
qed

lemma inspectBatches_done:
  "inspectBatches run unmarshal cmd prep key wrap [] result w = (Inr result, w)"
  by (subst inspectBatches.simps) simp

lemma inspectBatches_run_fails:
  "ids \<noteq> [] \<Longrightarrow> run w (cmd @ take 100 ids) = (Inl err, w') \<Longrightarrow>
     inspectBatches run unmarshal cmd prep key wrap ids result w = (Inl err, w')"
  by (subst inspectBatches.simps) simp

lemma inspectBatches_decode_fails:
  "ids \<noteq> [] \<Longrightarrow> run w (cmd @ take 100 ids) = (Inr out, w') \<Longrightarrow> unmarshal out = Inl err \<Longrightarrow>
     inspectBatches run unmarshal cmd prep key wrap ids result w = (Inl (wrap err), w')"
  by (subst inspectBatches.simps) simp

lemma inspectBatches_next:
  "ids \<noteq> [] \<Longrightarrow> run w (cmd @ take 100 ids) = (Inr out, w') \<Longrightarrow>
   unmarshal out = Inr inspected \<Longrightarrow>
     inspectBatches run unmarshal cmd prep key wrap ids result w =
       inspectBatches run unmarshal cmd prep key wrap (drop 100 ids)
         (storeInspected prep key result inspected) w'"
  by (subst inspectBatches.simps) simp

lemma inspectBatches_single:
  "ids \<noteq> [] \<Longrightarrow> length ids \<le> 100 \<Longrightarrow> run w (cmd @ ids) = (Inr out, w') \<Longrightarrow>
   unmarshal out = Inr inspected \<Longrightarrow>
     inspectBatches run unmarshal cmd prep key wrap ids result w =
       (Inr (storeInspected prep key result inspected), w')"
  using inspectBatches_next [of ids run w cmd out w' unmarshal inspected prep key wrap result]
  by (simp add: inspectBatches_done)

lemma volumeDetail_fallback:
  assumes "byName (Volume_Name vol) = None" and "inspectV (Volume_Name vol) = Inl err"
  shows "volumeDetail parseTime byName inspectV vol = (None, 0, [])"
  unfolding volumeDetail_def using assms by (simp add: Let_def)

lemma imageDetail_fallback:
  assumes "byID (NormalizeImageID trim (Image_ID img)) = None"
    and "inspectI (Image_ID img) = Inl err"
  shows "imageDetail trim parseTime needed byID inspectI img
          = imageDetail trim parseTime (\<lambda>ident. False) Map.empty inspectI img"
proof -
  have "(case byID (NormalizeImageID trim (Image_ID img)) of
           Some inspect \<Rightarrow> mergeImageInspect parseTime img inspect
         | None \<Rightarrow>
             if needed (NormalizeImageID trim (Image_ID img))
             then (case inspectI (Image_ID img) of
                     Inr inspect \<Rightarrow> mergeImageInspect parseTime img inspect
                   | Inl err \<Rightarrow> (Image_SizeBytes img, Image_ListLabels img, Image_CreatedAtTime img))
             else (Image_SizeBytes img, Image_ListLabels img, Image_CreatedAtTime img))
        = (Image_SizeBytes img, Image_ListLabels img, Image_CreatedAtTime img)"
    by (simp only: assms option.case sum.case if_cancel)
  then show ?thesis
    unfolding imageDetail_def Let_def by (simp only: option.case if_False)
qed

text \<open>
  Claim C9, as the code has it.  A batch inspection call is all or nothing: when the
  command of a batch fails, or its output does not decode, the call returns that error
  and no map, whatever was stored from the batches before; otherwise it goes on with
  the next 100 identifiers, and returns the map when none is left.  Within a decoded
  batch an entry with an empty key is skipped, and every other entry is stored under
  its key, the last entry of a key winning.  The statement is given for the loop the
  three functions share, and for \<open>InspectImages\<close> and \<open>InspectVolumes\<close> on their first
  batch.  In the analyzers, an image or a volume that has no entry in the map and
  whose own inspection fails is analyzed from the data of its listing entry alone.
\<close>

theorem batch_inspection_all_or_nothing:
  "(ids \<noteq> [] \<and> run w (cmd @ take 100 ids) = (Inl err, w') \<longrightarrow>
      inspectBatches run unmarshal cmd prep key wrap ids result w = (Inl err, w'))
   \<and> (ids \<noteq> [] \<and> run w (cmd @ take 100 ids) = (Inr out, w') \<and> unmarshal out = Inl err \<longrightarrow>
      inspectBatches run unmarshal cmd prep key wrap ids result w = (Inl (wrap err), w'))
   \<and> (ids \<noteq> [] \<and> run w (cmd @ take 100 ids) = (Inr out, w')
       \<and> unmarshal out = Inr inspected \<longrightarrow>
      inspectBatches run unmarshal cmd prep key wrap ids result w =
        inspectBatches run unmarshal cmd prep key wrap (drop 100 ids)
          (storeInspected prep key result inspected) w')
   \<and> inspectBatches run unmarshal cmd prep key wrap [] result w = (Inr result, w)
   \<and> storeInspected prep key result inspected [] = result []
   \<and> (k \<noteq> [] \<longrightarrow>
        storeInspected prep key result inspected k =
          (case find (\<lambda>item. key (prep item) = k) (rev inspected) of
             Some item \<Rightarrow> Some (prep item)
           | None \<Rightarrow> result k))
   \<and> (ids \<noteq> [] \<and> run w (''inspect'' # take 100 ids) = (Inl err, w') \<longrightarrow>
        InspectImages trim run unmarshalI ids w = (Inl err, w'))
   \<and> (ids \<noteq> [] \<and> run w (''inspect'' # take 100 ids) = (Inr out, w')
       \<and> unmarshalI out = Inl err \<longrightarrow>
        InspectImages trim run unmarshalI ids w
          = (Inl (''failed to parse inspect output: '' @ err), w'))
   \<and> (ids \<noteq> [] \<and> length ids \<le> 100 \<and> run w (''inspect'' # ids) = (Inr out, w')
       \<and> unmarshalI out = Inr images \<longrightarrow>
        InspectImages trim run unmarshalI ids w
          = (Inr (storeInspected configLabelsIfNil
                    (\<lambda>item. NormalizeImageID trim (ImageInspect_ID item)) Map.empty images), w'))
   \<and> (ids \<noteq> [] \<and> run w (''volume'' # ''inspect'' # take 100 ids) = (Inl err, w') \<longrightarrow>
        InspectVolumes run unmarshalV ids w = (Inl err, w'))
   \<and> (ids \<noteq> [] \<and> run w (''volume'' # ''inspect'' # take 100 ids) = (Inr out, w')
       \<and> unmarshalV out = Inl err \<longrightarrow>
        InspectVolumes run unmarshalV ids w = (Inl err, w'))
   \<and> (ids \<noteq> [] \<and> length ids \<le> 100 \<and> run w (''volume'' # ''inspect'' # ids) = (Inr out, w')
       \<and> unmarshalV out = Inr volumes \<longrightarrow>
        InspectVolumes run unmarshalV ids w
          = (Inr (storeInspected (\<lambda>item. item) VolumeInspect_Name Map.empty volumes), w'))
   \<and> (byID (NormalizeImageID trim (Image_ID img)) = None \<and> inspectI (Image_ID img) = Inl err
        \<longrightarrow>
        imageDetail trim parseTime (\<lambda>ident. False) Map.empty inspectI img
          = imageDetail trim parseTime needed byID inspectI img)
   \<and> (byName (Volume_Name vol) = None \<and> inspectV (Volume_Name vol) = Inl err \<longrightarrow>
        volumeDetail parseTime byName inspectV vol = (None, 0, []))"
proof -
  have images: "byID (NormalizeImageID trim (Image_ID img)) = None
        \<and> inspectI (Image_ID img) = Inl err \<longrightarrow>
        imageDetail trim parseTime (\<lambda>ident. False) Map.empty inspectI img
          = imageDetail trim parseTime needed byID inspectI img"
    using imageDetail_fallback [of byID trim img inspectI err parseTime needed] by metis
  have volumes: "byName (Volume_Name vol) = None \<and> inspectV (Volume_Name vol) = Inl err
        \<longrightarrow> volumeDetail parseTime byName inspectV vol = (None, 0, [])"
    using volumeDetail_fallback [of byName vol inspectV err parseTime] by blast
  show ?thesis
    unfolding InspectImages_def InspectVolumes_def
    apply (intro conjI)
                 prefer 13
                 apply (rule images)
                prefer 13
                apply (rule volumes)
               apply (simp_all add: inspectBatches_run_fails inspectBatches_decode_fails
        inspectBatches_next inspectBatches_done inspectBatches_single storeInspected_empty_key
        storeInspected_lookup)
    done
qed

lemma inspect_scenario:
  "inspect_run w [''inspect'', ''good''] = (Inr ''[good]'', w)"
  "inspect_run w [''inspect'', ''good'', ''gone'']
     = (Inl ''docker inspect good gone: Error response from daemon: No such object: gone'', w)"
  "volume_run w [''volume'', ''inspect'', ''v1'', ''v2''] = (Inr ''[{Name: v1}, {Name: 7}]'', w)"
  "NormalizeImageID id (ImageInspect_ID goodImage) = ''good''"
  "NormalizeImageID id (ImageInspect_ID noIdImage) = []"
  by (simp_all add: inspect_run_def volume_run_def NormalizeImageID_def TrimPrefix_def
      goodImage_def noIdImage_def)

lemma configLabelsIfNil_ID: "ImageInspect_ID (configLabelsIfNil item) = ImageInspect_ID item"
  by (simp add: configLabelsIfNil_def)

theorem batch_inspection_all_or_nothing_witness:
  "InspectImages id inspect_run decodeImages [''good''] ()
     = (Inr [''good'' \<mapsto> configLabelsIfNil goodImage], ())
   \<and> ImageInspect_Labels (configLabelsIfNil goodImage) = protectLabels
   \<and> InspectImages id inspect_run decodeImages [''good'', ''gone''] ()
     = (Inl ''docker inspect good gone: Error response from daemon: No such object: gone'', ())"
proof -
  note ok = batch_inspection_all_or_nothing
    [where ids = "[''good'']" and run = inspect_run and w = "()" and w' = "()"
      and out = "''[good]''" and unmarshalI = decodeImages
      and images = "[goodImage, noIdImage]" and trim = id,
      THEN conjunct2, THEN conjunct2, THEN conjunct2, THEN conjunct2, THEN conjunct2,
      THEN conjunct2, THEN conjunct2, THEN conjunct2, THEN conjunct1]
  note bad = batch_inspection_all_or_nothing
    [where ids = "[''good'', ''gone'']" and run = inspect_run and w = "()" and w' = "()"
      and err = "''docker inspect good gone: Error response from daemon: No such object: gone''"
      and unmarshalI = decodeImages and trim = id,
      THEN conjunct2, THEN conjunct2, THEN conjunct2, THEN conjunct2, THEN conjunct2,
      THEN conjunct2, THEN conjunct1]
  have 1: "InspectImages id inspect_run decodeImages [''good''] ()
     = (Inr (storeInspected configLabelsIfNil
               (\<lambda>item. NormalizeImageID id (ImageInspect_ID item)) Map.empty
               [goodImage, noIdImage]), ())"
    by (rule ok [THEN mp]) (simp add: inspect_scenario decodeImages_def)
  have 2: "InspectImages id inspect_run decodeImages [''good'', ''gone''] ()
     = (Inl ''docker inspect good gone: Error response from daemon: No such object: gone'', ())"
    by (rule bad [THEN mp]) (simp add: inspect_scenario)
  have 3: "storeInspected configLabelsIfNil
               (\<lambda>item. NormalizeImageID id (ImageInspect_ID item)) Map.empty
               [goodImage, noIdImage] = [''good'' \<mapsto> configLabelsIfNil goodImage]"
    by (simp add: inspect_scenario configLabelsIfNil_ID)
  have 4: "ImageInspect_Labels (configLabelsIfNil goodImage) = protectLabels"
    by (simp add: configLabelsIfNil_def goodImage_def)
  from 1 2 3 4 show ?thesis by simp
qed

text \<open>
  Claim C9 as stated fails: inspecting \<open>good\<close> alone returns its record, but in one
  batch with the missing \<open>gone\<close> the call returns an error and no record at all; and
  a volume batch whose output does not decode returns the decoding error.
\<close>

theorem batch_inspection_partial_success_counterexample:
  "fst (InspectImages id inspect_run decodeImages [''good''] ())
     = Inr [''good'' \<mapsto> configLabelsIfNil goodImage]
   \<and> fst (InspectImages id inspect_run decodeImages [''good'', ''gone''] ())
     = Inl ''docker inspect good gone: Error response from daemon: No such object: gone''
   \<and> fst (InspectVolumes volume_run decodeVolumes [''v1'', ''v2''] ())
     = Inl ''json: cannot unmarshal number into Go struct field VolumeInspect.Name of type string''"
  by (simp add: InspectImages_def InspectVolumes_def inspectBatches_run_fails
      inspectBatches_decode_fails inspectBatches_single inspect_scenario decodeImages_def
      decodeVolumes_def configLabelsIfNil_ID)

end
